theory Spec2Isabelle
  imports Complex_Main
begin

section \<open>The cycle state machine (backend/services/cycle\_state\_machine.py)\<close>

text \<open>
  The enums \<open>CycleState\<close> and \<open>CycleEvent\<close> of the source, constructor for member.
\<close>

datatype CycleState = IDLE | WAITING_START | ACTIVE | STOPPING | STOPPED | ABORTED

datatype CycleEvent =
    REGISTER_STREAM | CYCLE_START | CYCLE_STOP | CYCLE_PAUSE | CYCLE_RESUME
  | SAMPLE_RECEIVED | CONNECTION_LOST | TIMEOUT | MANUAL_ABORT

text \<open>
  A \<open>datetime\<close> is a count of microseconds, a \<open>timedelta\<close> their difference. A
  dictionary of custom metadata is an association list from keys to values (both strings
  here; the source allows any value).
\<close>

type_synonym datetime = int

type_synonym pydict = "(string \<times> string) list"

text \<open>The dataclass \<open>CycleMetadata\<close>, field for field.\<close>

record CycleMetadata =
  cycle_id :: string
  stream_id :: string
  dataset_id :: string
  cycle_number :: int
  start_time :: datetime
  end_time :: "datetime option"
  sample_count :: int
  is_reference :: bool
  health_score :: "real option"
  anomaly_flag :: bool
  abort_reason :: "string option"
  custom_metadata :: pydict

text \<open>
  The three callbacks are arbitrary callables of the caller. The machine records whether
  each one is set, and every invocation is appended to a log together with its argument.
\<close>

datatype callback_call =
    StateChange string CycleState CycleState "string option"
  | CycleComplete CycleMetadata
  | ErrorReport

record CycleStateMachine =
  m_stream_id :: string
  m_dataset_id :: string
  state :: CycleState
  current_cycle :: "CycleMetadata option"
  cycle_counter :: int
  last_sample_time :: "datetime option"
  stop_time :: "datetime option"
  on_state_change :: bool
  on_cycle_complete :: bool
  on_error :: bool

text \<open>
  What the machine reads from outside: the clock (\<open>datetime.utcnow()\<close>, the value of the
  k-th read), the generator of identifiers (\<open>uuid.uuid4()\<close>, the k-th identifier), and
  whether a callback raises when it is called with a given argument; \<open>isoformat\<close> is
  the printing function of the standard library. The world counts the reads made so far
  and keeps the log of callback invocations, oldest first.
\<close>

record env =
  utcnow :: "nat \<Rightarrow> datetime"
  uuid4 :: "nat \<Rightarrow> string"
  raises :: "callback_call \<Rightarrow> bool"
  isoformat :: "datetime \<Rightarrow> string"

record world =
  clock_reads :: nat
  uuid_reads :: nat
  call_log :: "callback_call list"

definition GRACE_PERIOD_SEC :: int where
  "GRACE_PERIOD_SEC = 10"

definition SAMPLE_TIMEOUT_SEC :: int where
  "SAMPLE_TIMEOUT_SEC = 30"

definition init_machine :: "string \<Rightarrow> string \<Rightarrow> CycleStateMachine" where
  "init_machine sid did =
     \<lparr> m_stream_id = sid, m_dataset_id = did, state = IDLE, current_cycle = None,
       cycle_counter = 0, last_sample_time = None, stop_time = None,
       on_state_change = False, on_cycle_complete = False, on_error = False \<rparr>"

definition init_world :: world where
  "init_world = \<lparr> clock_reads = 0, uuid_reads = 0, call_log = [] \<rparr>"

definition read_clock :: "env \<Rightarrow> world \<Rightarrow> datetime \<times> world" where
  "read_clock E w = (utcnow E (clock_reads w), w\<lparr>clock_reads := Suc (clock_reads w)\<rparr>)"

definition read_uuid :: "env \<Rightarrow> world \<Rightarrow> string \<times> world" where
  "read_uuid E w = (uuid4 E (uuid_reads w), w\<lparr>uuid_reads := Suc (uuid_reads w)\<rparr>)"

text \<open>
  Calling a callback: the call is logged; the boolean tells whether it raised.
\<close>

definition invoke :: "env \<Rightarrow> callback_call \<Rightarrow> world \<Rightarrow> bool \<times> world" where
  "invoke E c w = (raises E c, w\<lparr>call_log := call_log w @ [c]\<rparr>)"

text \<open>\<open>dict.pop(key, None)\<close> and \<open>dict[key] = value\<close> on the association list.\<close>

definition dict_pop :: "string \<Rightarrow> pydict \<Rightarrow> pydict" where
  "dict_pop k d = filter (\<lambda>kv. fst kv \<noteq> k) d"

definition dict_set :: "string \<Rightarrow> string \<Rightarrow> pydict \<Rightarrow> pydict" where
  "dict_set k v d =
     (if k \<in> set (map fst d) then map (\<lambda>kv. if fst kv = k then (k, v) else kv) d
      else d @ [(k, v)])"

text \<open>
  \<open>_start_new_cycle\<close>: the counter is incremented, a fresh record is allocated (one
  identifier and one clock read), and the last sample time is set by a second clock read.
\<close>

definition start_new_cycle ::
  "env \<Rightarrow> pydict \<Rightarrow> CycleStateMachine \<times> world \<Rightarrow> CycleStateMachine \<times> world" where
  "start_new_cycle E md mw =
     (let m = fst mw; w = snd mw;
          m1 = m\<lparr>cycle_counter := cycle_counter m + 1\<rparr>;
          (uid, w1) = read_uuid E w;
          (t0, w2) = read_clock E w1;
          c = \<lparr> cycle_id = uid, stream_id = m_stream_id m1, dataset_id = m_dataset_id m1,
                cycle_number = cycle_counter m1, start_time = t0, end_time = None,
                sample_count = 0, is_reference = False, health_score = None,
                anomaly_flag = False, abort_reason = None, custom_metadata = md \<rparr>;
          (t1, w3) = read_clock E w2
      in (m1\<lparr>current_cycle := Some c, last_sample_time := Some t1\<rparr>, w3))"

text \<open>
  \<open>_grace_period_elapsed\<close>: without a stop time the answer is no and the clock is not
  read; otherwise the elapsed time since the stop is compared with the grace period.
\<close>

definition grace_period_elapsed ::
  "env \<Rightarrow> CycleStateMachine \<Rightarrow> world \<Rightarrow> bool \<times> world" where
  "grace_period_elapsed E m w =
     (case stop_time m of
        None \<Rightarrow> (False, w)
      | Some st \<Rightarrow>
          (let (t, w1) = read_clock E w
           in (t - st \<ge> GRACE_PERIOD_SEC * 1000000, w1)))"

text \<open>
  \<open>_complete_cycle\<close>: with a current cycle, its end time is set and the completion
  callback, when set, is called with it. The boolean tells whether the callback raised.
\<close>

definition complete_cycle ::
  "env \<Rightarrow> CycleStateMachine \<times> world \<Rightarrow> bool \<times> CycleStateMachine \<times> world" where
  "complete_cycle E mw =
     (let m = fst mw; w = snd mw in
      case current_cycle m of
        None \<Rightarrow> (False, m, w)
      | Some c \<Rightarrow>
          (let (t, w1) = read_clock E w;
               c1 = c\<lparr>end_time := Some t\<rparr>;
               m1 = m\<lparr>current_cycle := Some c1\<rparr>
           in if on_cycle_complete m1
              then (let (r, w2) = invoke E (CycleComplete c1) w1 in (r, m1, w2))
              else (False, m1, w1)))"

definition set_abort_reason :: "string \<Rightarrow> CycleStateMachine \<Rightarrow> CycleStateMachine" where
  "set_abort_reason r m =
     (case current_cycle m of
        None \<Rightarrow> m
      | Some c \<Rightarrow> m\<lparr>current_cycle := Some (c\<lparr>abort_reason := Some r\<rparr>)\<rparr>)"

definition count_sample :: "CycleStateMachine \<Rightarrow> CycleStateMachine" where
  "count_sample m =
     (case current_cycle m of
        None \<Rightarrow> m
      | Some c \<Rightarrow> m\<lparr>current_cycle := Some (c\<lparr>sample_count := sample_count c + 1\<rparr>)\<rparr>)"

text \<open>
  The body of the \<open>try\<close> block of \<open>transition\<close> up to the notification: the chain of
  \<open>if\<close>/\<open>elif\<close> on the event, in the order of the source. The boolean tells whether an
  exception was raised (only a callback can raise).
\<close>

fun handle_event ::
  "env \<Rightarrow> CycleEvent \<Rightarrow> pydict option \<Rightarrow> CycleStateMachine \<times> world
     \<Rightarrow> bool \<times> CycleStateMachine \<times> world" where
  "handle_event E REGISTER_STREAM md (m, w) =
     (if state m = IDLE then (False, m\<lparr>state := WAITING_START\<rparr>, w) else (False, m, w))"
| "handle_event E CYCLE_START md (m, w) =
     (if state m \<in> {WAITING_START, STOPPED, ABORTED}
      then (let (m1, w1) =
                  start_new_cycle E (case md of None \<Rightarrow> [] | Some d \<Rightarrow> d)
                    (m\<lparr>state := ACTIVE\<rparr>, w)
            in (False, m1, w1))
      else (False, m, w))"
| "handle_event E CYCLE_STOP md (m, w) =
     (if state m = ACTIVE
      then (let (t, w1) = read_clock E w
            in (False, m\<lparr>state := STOPPING, stop_time := Some t\<rparr>, w1))
      else (False, m, w))"
| "handle_event E CYCLE_PAUSE md (m, w) =
     (if state m = ACTIVE
      then (case current_cycle m of
              None \<Rightarrow> (False, m, w)
            | Some c \<Rightarrow>
                (let (t, w1) = read_clock E w
                 in (False,
                     m\<lparr>current_cycle := Some (c\<lparr>custom_metadata :=
                          dict_set ''paused_at'' (isoformat E t) (custom_metadata c)\<rparr>)\<rparr>,
                     w1)))
      else (False, m, w))"
| "handle_event E CYCLE_RESUME md (m, w) =
     (if state m = ACTIVE
      then (case current_cycle m of
              None \<Rightarrow> (False, m, w)
            | Some c \<Rightarrow>
                (False,
                 m\<lparr>current_cycle := Some (c\<lparr>custom_metadata :=
                      dict_pop ''paused_at'' (custom_metadata c)\<rparr>)\<rparr>,
                 w))
      else (False, m, w))"
| "handle_event E SAMPLE_RECEIVED md (m, w) =
     (if state m = ACTIVE
      then (let (t, w1) = read_clock E w
            in (False, count_sample (m\<lparr>last_sample_time := Some t\<rparr>), w1))
      else if state m = STOPPING
      then (let (t, w1) = read_clock E w;
                m1 = count_sample (m\<lparr>last_sample_time := Some t\<rparr>);
                (g, w2) = grace_period_elapsed E m1 w1
            in if g then complete_cycle E (m1\<lparr>state := STOPPED\<rparr>, w2)
               else (False, m1, w2))
      else (False, m, w))"
| "handle_event E TIMEOUT md (m, w) =
     (if state m = ACTIVE
      then complete_cycle E (set_abort_reason ''sample_timeout'' (m\<lparr>state := ABORTED\<rparr>), w)
      else if state m = STOPPING
      then (let (g, w1) = grace_period_elapsed E m w
            in if g then complete_cycle E (m\<lparr>state := STOPPED\<rparr>, w1)
               else (False, m, w1))
      else (False, m, w))"
| "handle_event E CONNECTION_LOST md (m, w) =
     (if state m \<in> {ACTIVE, STOPPING}
      then complete_cycle E (set_abort_reason ''connection_lost'' (m\<lparr>state := ABORTED\<rparr>), w)
      else (False, m, w))"
| "handle_event E MANUAL_ABORT md (m, w) =
     (if state m \<in> {ACTIVE, STOPPING}
      then complete_cycle E (set_abort_reason ''manual_abort'' (m\<lparr>state := ABORTED\<rparr>), w)
      else (False, m, w))"

text \<open>
  What a call of \<open>transition\<close> gives its caller: a returned boolean, or an exception that
  escapes (when the error callback itself raises inside the \<open>except\<close> block).
\<close>

datatype outcome = Returned bool | Escaped

text \<open>
  The \<open>except\<close> block: the error callback, when set, is called; the call returns False.
\<close>

definition on_exception ::
  "env \<Rightarrow> CycleStateMachine \<times> world \<Rightarrow> outcome \<times> CycleStateMachine \<times> world" where
  "on_exception E mw =
     (let m = fst mw; w = snd mw in
      if on_error m
      then (let (r, w1) = invoke E ErrorReport w
            in (if r then Escaped else Returned False, m, w1))
      else (Returned False, m, w))"

text \<open>
  \<open>transition\<close>: the event is handled; when the state differs from the one on entry and
  the state-change callback is set, it is called with the stream, both states and the
  identifier of the current cycle; the call returns True. An exception on the way goes
  to the \<open>except\<close> block.
\<close>

definition transition ::
  "env \<Rightarrow> CycleEvent \<Rightarrow> pydict option \<Rightarrow> CycleStateMachine \<times> world
     \<Rightarrow> outcome \<times> CycleStateMachine \<times> world" where
  "transition E ev md mw =
     (let old_state = state (fst mw);
          (r, m1, w1) = handle_event E ev md mw
      in if r then on_exception E (m1, w1)
         else if old_state \<noteq> state m1 \<and> on_state_change m1
         then (let (r2, w2) =
                     invoke E (StateChange (m_stream_id m1) old_state (state m1)
                                 (map_option cycle_id (current_cycle m1))) w1
               in if r2 then on_exception E (m1, w2) else (Returned True, m1, w2))
         else (Returned True, m1, w1))"

text \<open>
  \<open>check_sample_timeout\<close>, the periodic tick: while active with a last sample time, a
  silence longer than the sample timeout fires \<open>TIMEOUT\<close>; while stopping, an elapsed
  grace period fires \<open>TIMEOUT\<close>. The result of \<open>transition\<close> is dropped.
\<close>

definition check_sample_timeout ::
  "env \<Rightarrow> CycleStateMachine \<times> world \<Rightarrow> CycleStateMachine \<times> world" where
  "check_sample_timeout E mw =
     (let m = fst mw; w = snd mw in
      if state m = ACTIVE \<and> last_sample_time m \<noteq> None
      then (let (t, w1) = read_clock E w
            in if t - the (last_sample_time m) > SAMPLE_TIMEOUT_SEC * 1000000
               then snd (transition E TIMEOUT None (m, w1))
               else (m, w1))
      else if state m = STOPPING
      then (let (g, w1) = grace_period_elapsed E m w
            in if g then snd (transition E TIMEOUT None (m, w1)) else (m, w1))
      else (m, w))"

text \<open>
  What can happen to a machine: a call of \<open>transition\<close> or a tick. A run applies a list
  of them in order.
\<close>

datatype input = Transition CycleEvent "pydict option" | Tick

fun step :: "env \<Rightarrow> input \<Rightarrow> CycleStateMachine \<times> world \<Rightarrow> CycleStateMachine \<times> world" where
  "step E (Transition ev md) mw = snd (transition E ev md mw)"
| "step E Tick mw = check_sample_timeout E mw"

definition run ::
  "env \<Rightarrow> input list \<Rightarrow> CycleStateMachine \<times> world \<Rightarrow> CycleStateMachine \<times> world" where
  "run E inps mw = foldl (\<lambda>s i. step E i s) mw inps"

text \<open>
  The pairs of the transition table of section 4.1 of the specification, as the table
  lists them (the pair of \<open>TIMEOUT\<close> and \<open>STOPPING\<close> is listed with a condition on the
  grace period).
\<close>

fun table_valid :: "CycleEvent \<Rightarrow> CycleState \<Rightarrow> bool" where
  "table_valid REGISTER_STREAM s = (s = IDLE)"
| "table_valid CYCLE_START s = (s = WAITING_START \<or> s = STOPPED \<or> s = ABORTED)"
| "table_valid SAMPLE_RECEIVED s = (s = ACTIVE \<or> s = STOPPING)"
| "table_valid CYCLE_STOP s = (s = ACTIVE)"
| "table_valid CYCLE_PAUSE s = (s = ACTIVE)"
| "table_valid CYCLE_RESUME s = (s = ACTIVE)"
| "table_valid TIMEOUT s = (s = ACTIVE \<or> s = STOPPING)"
| "table_valid CONNECTION_LOST s = (s = ACTIVE \<or> s = STOPPING)"
| "table_valid MANUAL_ABORT s = (s = ACTIVE \<or> s = STOPPING)"

text \<open>The number of invocations of the completion callback for the cycle numbered n.\<close>

definition completions :: "int \<Rightarrow> callback_call list \<Rightarrow> nat" where
  "completions n l =
     length (filter (\<lambda>c. case c of CycleComplete cm \<Rightarrow> cycle_number cm = n | _ \<Rightarrow> False) l)"

text \<open>
  The invariant behind the at-most-once property. No completion is logged for a cycle
  number above the counter; no number has two completions; the current cycle carries the
  counter as its number; and while the machine is active or stopping, the cycle of the
  current number has no completion yet.
\<close>

definition fsm_inv :: "CycleStateMachine \<times> world \<Rightarrow> bool" where
  "fsm_inv mw = (let m = fst mw; l = call_log (snd mw) in
     (\<forall>n. cycle_counter m < n \<longrightarrow> completions n l = 0) \<and>
     (\<forall>n. completions n l \<le> 1) \<and>
     (\<forall>c. current_cycle m = Some c \<longrightarrow> cycle_number c = cycle_counter m) \<and>
     (state m = ACTIVE \<or> state m = STOPPING \<longrightarrow> completions (cycle_counter m) l = 0))"

text \<open>
  A concrete environment and run for evaluation: the clock advances four seconds per read,
  no callback raises. The run registers, starts a cycle, receives a sample, stops,
  receives a late sample, ticks past the grace period and then sends further events.
\<close>

definition E0 :: env where
  "E0 = \<lparr> utcnow = (\<lambda>k. int k * 4000000), uuid4 = (\<lambda>k. ''id''), raises = (\<lambda>c. False),
           isoformat = (\<lambda>t. ''t'') \<rparr>"

definition machine0 :: CycleStateMachine where
  "machine0 = init_machine ''s'' ''d''
     \<lparr>on_state_change := True, on_cycle_complete := True, on_error := True\<rparr>"

definition demo_run :: "input list" where
  "demo_run = [Transition REGISTER_STREAM None, Transition CYCLE_START None,
           Transition SAMPLE_RECEIVED None, Transition CYCLE_STOP None,
           Transition SAMPLE_RECEIVED None, Tick, Tick, Transition SAMPLE_RECEIVED None,
           Transition TIMEOUT None, Transition MANUAL_ABORT None, Tick]"


section \<open>The edge connector (edge-connector/connector.py)\<close>

text \<open>The pydantic model \<open>SensorReading\<close>; floats are real numbers here.\<close>

record SensorReading =
  timestamp :: string
  sensor_id :: string
  sensor_name :: string
  reading_value :: real
  reading_unit :: string
  quality :: real

text \<open>
  \<open>LocalBuffer\<close>: the SQLite table \<open>samples\<close> is the list of its rows in insertion order;
  \<open>id\<close> is the autoincrement key, \<open>acked\<close> defaults to 0, \<open>created_at\<close> to the
  database's current timestamp (seconds).
\<close>

record sample_row =
  row_id :: nat
  row_reading :: SensorReading
  acked :: bool
  created_at :: int

record LocalBuffer =
  max_samples :: int
  rows :: "sample_row list"
  next_id :: nat

text \<open>
  What a POST can give: a response with a status, \<open>asyncio.TimeoutError\<close>, or any other
  exception of the transport.
\<close>

datatype response = Status nat | TimeoutError | TransportError

text \<open>
  The effects of the connector, in the order they happen: a POST of a batch, a sleep, an
  insert into the durable table.
\<close>

datatype effect = Post "SensorReading list" | Sleep real | Insert SensorReading

text \<open>
  The outside of the connector: the outcome of the k-th POST and the database clock at
  the k-th insert. The world counts both and keeps the trace of effects, oldest first.
\<close>

record cenv =
  post_result :: "nat \<Rightarrow> response"
  current_timestamp :: "nat \<Rightarrow> int"

record cworld =
  posts :: nat
  inserts :: nat
  trace :: "effect list"

record EdgeConnector =
  c_stream_id :: "string option"
  batch_size :: int
  flush_interval :: real
  retry_max_attempts :: int
  retry_backoff :: real
  buffer :: LocalBuffer
  batch :: "SensorReading list"
  last_flush :: datetime
  simulator_interval :: real

text \<open>\<open>LocalBuffer.add_sample\<close>: one row is inserted, unacknowledged.\<close>

definition add_sample ::
  "cenv \<Rightarrow> SensorReading \<Rightarrow> LocalBuffer \<times> cworld \<Rightarrow> LocalBuffer \<times> cworld" where
  "add_sample E r bw =
     (let b = fst bw; w = snd bw;
          new_row = \<lparr> row_id = next_id b, row_reading = r, acked = False,
                      created_at = current_timestamp E (inserts w) \<rparr>
      in (b\<lparr>rows := rows b @ [new_row], next_id := Suc (next_id b)\<rparr>,
          w\<lparr>inserts := Suc (inserts w), trace := trace w @ [Insert r]\<rparr>))"



definition do_post :: "cenv \<Rightarrow> SensorReading list \<Rightarrow> cworld \<Rightarrow> response \<times> cworld" where
  "do_post E readings w =
     (post_result E (posts w), w\<lparr>posts := Suc (posts w), trace := trace w @ [Post readings]\<rparr>)"

definition do_sleep :: "real \<Rightarrow> cworld \<Rightarrow> cworld" where
  "do_sleep d w = w\<lparr>trace := trace w @ [Sleep d]\<rparr>"

text \<open>
  The \<open>while\<close> loop of \<open>send_batch\<close>, with its two local variables. It gives \<open>Some b\<close>
  when the body returned b (a response arrived), and \<open>None\<close> when the loop ran out.
\<close>

function send_loop ::
  "cenv \<Rightarrow> SensorReading list \<Rightarrow> int \<Rightarrow> int \<Rightarrow> real \<Rightarrow> cworld \<Rightarrow> bool option \<times> cworld" where
  "send_loop E readings max_attempts retry_count backoff w =
     (if retry_count < max_attempts
      then (case do_post E readings w of
              (Status code, w1) \<Rightarrow> (if code = 200 then (Some True, w1) else (Some False, w1))
            | (TimeoutError, w1) \<Rightarrow>
                (if retry_count + 1 < max_attempts
                 then send_loop E readings max_attempts (retry_count + 1) (backoff * 2)
                        (do_sleep backoff w1)
                 else send_loop E readings max_attempts (retry_count + 1) backoff w1)
            | (TransportError, w1) \<Rightarrow>
                (if retry_count + 1 < max_attempts
                 then send_loop E readings max_attempts (retry_count + 1) (backoff * 2)
                        (do_sleep backoff w1)
                 else send_loop E readings max_attempts (retry_count + 1) backoff w1))
      else (None, w))"
  by pat_completeness auto
termination
  by (relation "measure (\<lambda>(E, readings, max_attempts, retry_count, backoff, w).
                  nat (max_attempts - retry_count))") auto

declare send_loop.simps [simp del]

text \<open>
  \<open>if not self.stream_id\<close>: no identifier, or the empty string.
\<close>

definition no_stream :: "string option \<Rightarrow> bool" where
  "no_stream s = (case s of None \<Rightarrow> True | Some x \<Rightarrow> x = [])"

text \<open>
  \<open>send_batch\<close>: without a stream identifier it returns False at once. Otherwise the
  loop runs; when it runs out, every reading is added to the local buffer and the result
  is False.
\<close>

definition send_batch ::
  "cenv \<Rightarrow> SensorReading list \<Rightarrow> EdgeConnector \<times> cworld \<Rightarrow> bool \<times> EdgeConnector \<times> cworld" where
  "send_batch E readings cw =
     (let c = fst cw; w = snd cw in
      if no_stream (c_stream_id c) then (False, c, w)
      else (case send_loop E readings (retry_max_attempts c) 0 (retry_backoff c) w of
              (Some b, w1) \<Rightarrow> (b, c, w1)
            | (None, w1) \<Rightarrow>
                (let (b2, w2) = foldl (\<lambda>bw r. add_sample E r bw) (buffer c, w1) readings
                 in (False, c\<lparr>buffer := b2\<rparr>, w2))))"

text \<open>\<open>flush_batch\<close>: a non-empty batch is copied, cleared and sent.\<close>

definition flush_batch :: "cenv \<Rightarrow> EdgeConnector \<times> cworld \<Rightarrow> EdgeConnector \<times> cworld" where
  "flush_batch E cw =
     (let c = fst cw; w = snd cw in
      if batch c \<noteq> []
      then snd (send_batch E (batch c) (c\<lparr>batch := []\<rparr>, w))
      else (c, w))"

text \<open>
  One iteration of the \<open>while\<close> loop of \<open>read_loop\<close>: \<open>readings\<close> is what the simulator
  produced, \<open>now\<close> the clock when the flush condition is evaluated.
\<close>

definition flush_due :: "EdgeConnector \<Rightarrow> datetime \<Rightarrow> bool" where
  "flush_due c now =
     (int (length (batch c)) \<ge> batch_size c \<or>
      real_of_int (now - last_flush c) / 1000000 \<ge> flush_interval c)"

definition read_iteration ::
  "cenv \<Rightarrow> SensorReading list \<Rightarrow> datetime \<Rightarrow> EdgeConnector \<times> cworld
     \<Rightarrow> EdgeConnector \<times> cworld" where
  "read_iteration E readings now cw =
     (let c = fst cw; w = snd cw;
          c1 = c\<lparr>batch := batch c @ readings\<rparr>;
          (c2, w2) =
            (if flush_due c1 now
             then (let (c3, w3) = flush_batch E (c1, w) in (c3\<lparr>last_flush := now\<rparr>, w3))
             else (c1, w))
      in (c2, do_sleep (simulator_interval c2) w2))"


text \<open>
  The trace of a send whose attempts all raise: a POST per attempt, and between two
  attempts a sleep of the current backoff, which doubles.
\<close>

fun failed_attempts :: "SensorReading list \<Rightarrow> real \<Rightarrow> nat \<Rightarrow> effect list" where
  "failed_attempts readings b 0 = []"
| "failed_attempts readings b (Suc 0) = [Post readings]"
| "failed_attempts readings b (Suc (Suc n)) =
     Post readings # Sleep b # failed_attempts readings (b * 2) (Suc n)"

text \<open>The rows that buffering a list of readings adds.\<close>

definition new_rows :: "cenv \<Rightarrow> LocalBuffer \<Rightarrow> cworld \<Rightarrow> SensorReading list \<Rightarrow> sample_row list" where
  "new_rows E b w readings =
     map (\<lambda>i. \<lparr> row_id = next_id b + i, row_reading = readings ! i, acked = False,
                created_at = current_timestamp E (inserts w + i) \<rparr>) [0 ..< length readings]"

text \<open>Every POST from the k-th on, n of them, raises.\<close>

definition attempts_fail :: "cenv \<Rightarrow> nat \<Rightarrow> nat \<Rightarrow> bool" where
  "attempts_fail E k n =
     list_all (\<lambda>i. case post_result E i of Status code \<Rightarrow> False | _ \<Rightarrow> True) [k ..< k + n]"



text \<open>A concrete connector for evaluation, and two transports.\<close>

definition reading0 :: SensorReading where
  "reading0 = \<lparr> timestamp = ''t0'', sensor_id = ''s1'', sensor_name = ''motor_speed'',
                reading_value = 50, reading_unit = ''RPM'', quality = 1 \<rparr>"

definition reading1 :: SensorReading where
  "reading1 = \<lparr> timestamp = ''t1'', sensor_id = ''s2'', sensor_name = ''vibration'',
                reading_value = 7, reading_unit = ''g'', quality = 1 \<rparr>"

definition connector0 :: EdgeConnector where
  "connector0 = \<lparr> c_stream_id = Some ''stream'', batch_size = 2, flush_interval = 1,
                  retry_max_attempts = 3, retry_backoff = 2,
                  buffer = \<lparr> max_samples = 10000, rows = [], next_id = 1 \<rparr>,
                  batch = [], last_flush = 0, simulator_interval = 1 / 10 \<rparr>"

definition cworld0 :: cworld where
  "cworld0 = \<lparr> posts = 0, inserts = 0, trace = [] \<rparr>"

definition transport_ok :: cenv where
  "transport_ok = \<lparr> post_result = (\<lambda>k. Status 200), current_timestamp = (\<lambda>k. 0) \<rparr>"

definition transport_down :: cenv where
  "transport_down = \<lparr> post_result = (\<lambda>k. if even k then TimeoutError else TransportError),
                      current_timestamp = (\<lambda>k. int k) \<rparr>"

section \<open>Floating-point results and numpy primitives\<close>

text \<open>
  Floats are modelled as real numbers with exact arithmetic; the two special values a
  computation of the source can produce are kept apart: \<open>nan\<close> (from \<open>0/0\<close> or the mean
  of an empty array) and \<open>inf\<close>. Exceptions of the numeric libraries are values.
\<close>

datatype pyfloat = NaN | PosInf | Fin real

datatype py_error = ValueError

text \<open>A float lies in the closed unit interval; \<open>nan\<close> and \<open>inf\<close> do not.\<close>

fun in_unit_interval :: "pyfloat \<Rightarrow> bool" where
  "in_unit_interval (Fin r) = (0 \<le> r \<and> r \<le> 1)"
| "in_unit_interval NaN = False"
| "in_unit_interval PosInf = False"

text \<open>\<open>x > t\<close> for a float x and a finite threshold t; a comparison with \<open>nan\<close> is false.\<close>

fun pf_gt :: "pyfloat \<Rightarrow> real \<Rightarrow> bool" where
  "pf_gt (Fin r) t = (r > t)"
| "pf_gt NaN t = False"
| "pf_gt PosInf t = True"

text \<open>
  \<open>np.mean\<close> and \<open>np.std\<close> (population standard deviation) of a non-empty array; the
  functions below that call them on a possibly empty array return \<open>nan\<close> there, as numpy
  does.
\<close>

definition np_mean :: "real list \<Rightarrow> real" where
  "np_mean xs = sum_list xs / real (length xs)"

definition np_std :: "real list \<Rightarrow> real" where
  "np_std xs = sqrt (np_mean (map (\<lambda>x. (x - np_mean xs)\<^sup>2) xs))"

definition np_clip :: "real \<Rightarrow> real \<Rightarrow> real \<Rightarrow> real" where
  "np_clip x lo hi = min (max x lo) hi"

text \<open>
  \<open>np.cov\<close> of two arrays of equal length (one degree of freedom removed) and
  \<open>np.corrcoef(x, y)[0, 1]\<close>: the covariance divided by both standard deviations and
  clipped to \<open>[-1, 1]\<close>. With fewer than two points, or when one of the arrays has zero
  variance, the division is \<open>0/0\<close> and the result is \<open>nan\<close>.
\<close>

definition np_cov :: "real list \<Rightarrow> real list \<Rightarrow> real" where
  "np_cov xs ys =
     sum_list (map (\<lambda>(x, y). (x - np_mean xs) * (y - np_mean ys)) (zip xs ys))
       / (real (length xs) - 1)"

definition np_corrcoef :: "real list \<Rightarrow> real list \<Rightarrow> pyfloat" where
  "np_corrcoef xs ys =
     (if length xs \<le> 1 \<or> np_cov xs xs = 0 \<or> np_cov ys ys = 0 then NaN
      else Fin (np_clip (np_cov xs ys / sqrt (np_cov xs xs) / sqrt (np_cov ys ys)) (- 1) 1))"

text \<open>\<open>np.linspace(0, 1, n)\<close>.\<close>

definition np_linspace01 :: "nat \<Rightarrow> real list" where
  "np_linspace01 n = (if n = 1 then [0] else map (\<lambda>i. real i / real (n - 1)) [0 ..< n])"

text \<open>
  Piecewise linear interpolation through the points \<open>(xp, fp)\<close>, \<open>xp\<close> increasing: left of
  the first point its value, right of the last point its value, and in between the value
  on the segment. (The empty list of points never reaches this function.)
\<close>

fun interp_at :: "real \<Rightarrow> (real \<times> real) list \<Rightarrow> real" where
  "interp_at x [] = 0"
| "interp_at x [(x0, y0)] = y0"
| "interp_at x ((x0, y0) # (x1, y1) # ps) =
     (if x \<le> x0 then y0
      else if x < x1 then (y1 - y0) / (x1 - x0) * (x - x0) + y0
      else interp_at x ((x1, y1) # ps))"

text \<open>\<open>np.interp(x, xp, fp)\<close>: an empty array of sample points raises \<open>ValueError\<close>.\<close>

definition np_interp :: "real list \<Rightarrow> real list \<Rightarrow> real list \<Rightarrow> py_error + real list" where
  "np_interp xs xp fp =
     (if xp = [] then Inl ValueError else Inr (map (\<lambda>x. interp_at x (zip xp fp)) xs))"

text \<open>\<open>np.argmax\<close> of a non-empty array: the first index of the maximum.\<close>

definition np_argmax :: "real list \<Rightarrow> nat" where
  "np_argmax xs = length (takeWhile (\<lambda>x. x \<noteq> Max (set xs)) xs)"

text \<open>
  \<open>scipy.signal.correlate(x, y, mode='same')\<close> for arrays of equal length: the full
  cross-correlation \<open>z[k] = sum over l of x[l] * y[l - k + N - 1]\<close>, of which the
  central \<open>N\<close> entries are kept.
\<close>

definition correlate_full :: "real list \<Rightarrow> real list \<Rightarrow> nat \<Rightarrow> real" where
  "correlate_full xs ys k =
     sum_list (map (\<lambda>l. if k \<le> l + (length ys - 1) \<and> l + (length ys - 1) - k < length ys
                         then xs ! l * ys ! (l + (length ys - 1) - k) else 0)
                [0 ..< length xs])"

definition correlate_same :: "real list \<Rightarrow> real list \<Rightarrow> real list" where
  "correlate_same xs ys =
     map (\<lambda>i. correlate_full xs ys (i + (length ys - 1) div 2)) [0 ..< length xs]"

section \<open>The analysis service (backend/app/services/analysis\_service.py)\<close>

datatype DeviationType = SHAPE | TIMING | AMPLITUDE | OVERALL

record DeviationDetail =
  dd_sensor_name :: string
  deviation_type :: DeviationType
  severity :: real
  compared_to :: string
  description :: string

definition eps :: real where
  "eps = 1 / 10 ^ 10"

text \<open>
  \<open>_resample_series\<close>: the series is interpolated linearly at \<open>target_length\<close> equally
  spaced positions of the normalised index \<open>[0, 1]\<close>.
\<close>

definition resample_series :: "real list \<Rightarrow> nat \<Rightarrow> py_error + real list" where
  "resample_series series target_length =
     np_interp (np_linspace01 target_length) (np_linspace01 (length series)) series"

text \<open>
  The detectors are called on two arrays of equal length (see \<open>detector_inputs\<close> below).

  \<open>_calculate_similarity\<close>: both series are z-normalised, correlated, and the
  correlation is mapped to \<open>(corr + 1) / 2\<close> and clipped; \<open>np.clip\<close> leaves \<open>nan\<close> as it
  is.
\<close>

definition calculate_similarity :: "real list \<Rightarrow> real list \<Rightarrow> pyfloat" where
  "calculate_similarity series1 series2 =
     (let s1_norm = map (\<lambda>x. (x - np_mean series1) / (np_std series1 + eps)) series1;
          s2_norm = map (\<lambda>x. (x - np_mean series2) / (np_std series2 + eps)) series2
      in case np_corrcoef s1_norm s2_norm of
           Fin correlation \<Rightarrow> Fin (np_clip ((correlation + 1) / 2) 0 1)
         | other \<Rightarrow> NaN)"

text \<open>
  \<open>_detect_amplitude_deviation\<close>; on an empty series the means are \<open>nan\<close>, and
  \<open>min(nan, 1.0)\<close> is \<open>nan\<close>.
\<close>

definition detect_amplitude_deviation :: "real list \<Rightarrow> real list \<Rightarrow> pyfloat" where
  "detect_amplitude_deviation series1 series2 =
     (if series1 = [] \<or> series2 = [] then NaN
      else (let mean1 = np_mean series1; mean2 = np_mean series2;
                std1 = np_std series1; std2 = np_std series2;
                mean_diff = \<bar>mean1 - mean2\<bar> / (\<bar>mean2\<bar> + eps);
                std_diff = \<bar>std1 - std2\<bar> / (\<bar>std2\<bar> + eps)
            in Fin (min ((mean_diff + std_diff) / 2) 1)))"

text \<open>
  \<open>_detect_shape_deviation\<close>: \<open>max(0, 1 - abs(correlation))\<close>; with a \<open>nan\<close>
  correlation Python's \<open>max(0, nan)\<close> keeps its first argument.
\<close>

definition detect_shape_deviation :: "real list \<Rightarrow> real list \<Rightarrow> pyfloat" where
  "detect_shape_deviation series1 series2 =
     (case np_corrcoef series1 series2 of
        Fin correlation \<Rightarrow> Fin (max 0 (1 - \<bar>correlation\<bar>))
      | other \<Rightarrow> Fin 0)"

text \<open>
  \<open>_detect_timing_deviation\<close>: the lag of the maximal cross-correlation, relative to a
  tenth of the length; \<open>np.argmax\<close> of an empty array raises.
\<close>

definition detect_timing_deviation :: "real list \<Rightarrow> real list \<Rightarrow> py_error + pyfloat" where
  "detect_timing_deviation series1 series2 =
     (if series1 = [] then Inl ValueError
      else (let correlation = correlate_same series1 series2;
                lag = int (np_argmax correlation) - int (length series1) div 2;
                max_lag = real (length series1) * (1 / 10)
            in Inr (Fin (min (real_of_int \<bar>lag\<bar> / max_lag) 1))))"

text \<open>
  The first lines of \<open>_compare_sensor_data\<close>: the two arrays handed to every detector.
  When the lengths differ, the sensor's series is resampled to the length of the
  reference; the reference is taken as it is.
\<close>

definition detector_inputs ::
  "real list \<Rightarrow> real list \<Rightarrow> py_error + real list \<times> real list" where
  "detector_inputs sensor_data ref_data =
     (if length sensor_data \<noteq> length ref_data
      then (case resample_series sensor_data (length ref_data) of
              Inl e \<Rightarrow> Inl e
            | Inr sensor_values \<Rightarrow> Inr (sensor_values, ref_data))
      else Inr (sensor_data, ref_data))"

definition the_fin :: "pyfloat \<Rightarrow> real" where
  "the_fin f = (case f of Fin r \<Rightarrow> r | other \<Rightarrow> 0)"

text \<open>
  \<open>_compare_sensor_data\<close>: similarity and the three deviations of the prepared arrays;
  a deviation is reported when its severity exceeds 0.2.
\<close>

definition compare_sensor_data ::
  "real list \<Rightarrow> real list \<Rightarrow> string \<Rightarrow> string
     \<Rightarrow> py_error + DeviationDetail list \<times> pyfloat" where
  "compare_sensor_data sensor_data ref_data name cmp =
     (case detector_inputs sensor_data ref_data of
        Inl e \<Rightarrow> Inl e
      | Inr (sensor_values, ref_values) \<Rightarrow>
          (let similarity = calculate_similarity sensor_values ref_values;
               amplitude_dev = detect_amplitude_deviation sensor_values ref_values;
               d1 = (if pf_gt amplitude_dev (2 / 10)
                     then [\<lparr> dd_sensor_name = name, deviation_type = AMPLITUDE,
                             severity = the_fin amplitude_dev, compared_to = cmp,
                             description = ''Significant amplitude difference detected'' \<rparr>]
                     else []);
               shape_dev = detect_shape_deviation sensor_values ref_values;
               d2 = (if pf_gt shape_dev (2 / 10)
                     then [\<lparr> dd_sensor_name = name, deviation_type = SHAPE,
                             severity = the_fin shape_dev, compared_to = cmp,
                             description = ''Signal shape differs from reference'' \<rparr>]
                     else [])
           in case detect_timing_deviation sensor_values ref_values of
                Inl e \<Rightarrow> Inl e
              | Inr timing_dev \<Rightarrow>
                  (let d3 = (if pf_gt timing_dev (2 / 10)
                             then [\<lparr> dd_sensor_name = name, deviation_type = TIMING,
                                     severity = the_fin timing_dev, compared_to = cmp,
                                     description = ''Timing offset detected'' \<rparr>]
                             else [])
                   in Inr (d1 @ d2 @ d3, similarity))))"

text \<open>\<open>_calculate_health_score\<close>, the batch health score.\<close>

fun weights :: "DeviationType \<Rightarrow> real" where
  "weights AMPLITUDE = 8 / 10"
| "weights SHAPE = 1"
| "weights TIMING = 6 / 10"
| "weights OVERALL = 1"

definition calculate_health_score :: "DeviationDetail list \<Rightarrow> real" where
  "calculate_health_score deviations =
     (if deviations = [] then 1
      else (let weighted_sum =
                  sum_list (map (\<lambda>dev. severity dev * weights (deviation_type dev)) deviations);
                total_weight = sum_list (map (\<lambda>dev. weights (deviation_type dev)) deviations);
                avg_deviation = (if total_weight > 0 then weighted_sum / total_weight else 0)
            in max 0 (1 - avg_deviation)))"

text \<open>
  The database model \<open>Cycle\<close> (the fields the analysis reads) and the window of
  \<open>analyze_root_cause\<close>. \<open>if time_window_seconds:\<close> is false for \<open>None\<close> and for zero.
\<close>

record Cycle =
  cy_id :: int
  cy_dataset_id :: int
  cy_start_time :: real
  cy_end_time :: real
  cy_duration :: real
  cy_is_complete :: bool

record RootCauseAnalysisResponse =
  rc_cycle_id :: int
  rc_stop_time :: real
  analysis_window_start :: real
  analysis_window_end :: real

definition truthy :: "real option \<Rightarrow> bool" where
  "truthy v = (case v of None \<Rightarrow> False | Some x \<Rightarrow> x \<noteq> 0)"

definition window_start_of :: "Cycle \<Rightarrow> real option \<Rightarrow> real" where
  "window_start_of cycle time_window_seconds =
     (let stop_time = cy_end_time cycle in
      if truthy time_window_seconds
      then max (cy_start_time cycle) (stop_time - the time_window_seconds)
      else (let window_duration = cy_duration cycle * (1 / 10)
            in stop_time - window_duration))"

text \<open>
  \<open>analyze_root_cause\<close>, as far as the window goes: \<open>cycle\<close> and \<open>ref_cycle\<close> are what the
  cycle service finds (or not). Nothing is returned for a missing or complete cycle, or
  without a reference cycle. The ranked contributors of the response do not enter the
  window and are left out of the record.
\<close>

definition analyze_root_cause ::
  "Cycle option \<Rightarrow> real option \<Rightarrow> Cycle option \<Rightarrow> RootCauseAnalysisResponse option" where
  "analyze_root_cause cycle time_window_seconds ref_cycle =
     (case cycle of
        None \<Rightarrow> None
      | Some c \<Rightarrow>
          (if cy_is_complete c then None
           else (let stop_time = cy_end_time c;
                     window_start = window_start_of c time_window_seconds
                 in case ref_cycle of
                      None \<Rightarrow> None
                    | Some r \<Rightarrow>
                        Some \<lparr> rc_cycle_id = cy_id c, rc_stop_time = stop_time,
                               analysis_window_start = window_start,
                               analysis_window_end = stop_time \<rparr>)))"

text \<open>An abnormally terminated cycle and a reference cycle, for evaluation.\<close>

definition cycle0 :: Cycle where
  "cycle0 = \<lparr> cy_id = 7, cy_dataset_id = 1, cy_start_time = 100, cy_end_time = 160,
              cy_duration = 60, cy_is_complete = False \<rparr>"

definition ref_cycle0 :: Cycle where
  "ref_cycle0 = \<lparr> cy_id = 1, cy_dataset_id = 1, cy_start_time = 0, cy_end_time = 60,
                  cy_duration = 60, cy_is_complete = True \<rparr>"

section \<open>The deviation analyzer (backend/services/deviation\_analyzer.py)\<close>

record SensorDeviation =
  sd_sensor_id :: string
  sd_sensor_name :: string
  sd_euclidean_distance :: real
  sd_dtw_distance :: pyfloat
  max_deviation :: real
  mean_deviation :: real
  peak_deviation_time :: "string option"
  contribution_rank :: int
  sd_severity :: string

definition anomaly_threshold :: real where
  "anomaly_threshold = 7 / 10"

definition warning_threshold :: real where
  "warning_threshold = 5 / 10"

text \<open>
  \<open>normalize_signal\<close>: an empty array is returned as it is, a constant one becomes
  zeros, any other is mapped linearly onto \<open>[0, 1]\<close>.
\<close>

definition normalize_signal :: "real list \<Rightarrow> real list" where
  "normalize_signal values =
     (if length values = 0 then values
      else (let min_val = Min (set values); max_val = Max (set values)
            in if max_val = min_val then map (\<lambda>v. 0) values
               else map (\<lambda>v. (v - min_val) / (max_val - min_val)) values))"

text \<open>
  \<open>smooth_signal\<close>: a series shorter than the window is returned as it is; otherwise
  the Savitzky-Golay filter of scipy (window 11, order 3) is applied, and when it raises
  the series is returned as it is. The filter is a parameter: \<open>None\<close> when it raises.
\<close>

definition smooth_signal :: "(real list \<Rightarrow> real list option) \<Rightarrow> real list \<Rightarrow> real list" where
  "smooth_signal savgol_filter values =
     (if length values < 11 then values
      else (case savgol_filter values of Some smoothed \<Rightarrow> smoothed | None \<Rightarrow> values))"

text \<open>
  \<open>euclidean_distance\<close>: both arrays are cut to the shorter length and normalised;
  scipy's \<open>euclidean\<close> is the root of the sum of squared differences.
\<close>

definition euclidean_distance :: "real list \<Rightarrow> real list \<Rightarrow> real" where
  "euclidean_distance completed_values reference_values =
     (let min_len = min (length completed_values) (length reference_values);
          completed_norm = normalize_signal (take min_len completed_values);
          reference_norm = normalize_signal (take min_len reference_values)
      in sqrt (sum_list (map (\<lambda>(u, v). (u - v)\<^sup>2) (zip completed_norm reference_norm))))"

text \<open>
  The table \<open>dtw_matrix\<close>: entry \<open>[0, 0]\<close> is 0, the rest of row 0 and of column 0 is
  \<open>inf\<close> (here \<open>None\<close>), and the two nested loops write every other entry once, from the
  three entries above, left and diagonal, all written before. The table is therefore the
  function of this recurrence.
\<close>

fun ext_min :: "real option \<Rightarrow> real option \<Rightarrow> real option" where
  "ext_min None y = y"
| "ext_min (Some x) None = Some x"
| "ext_min (Some x) (Some y) = Some (min x y)"

fun ext_add :: "real \<Rightarrow> real option \<Rightarrow> real option" where
  "ext_add c None = None"
| "ext_add c (Some x) = Some (c + x)"

fun dtw_matrix :: "real list \<Rightarrow> real list \<Rightarrow> nat \<Rightarrow> nat \<Rightarrow> real option" where
  "dtw_matrix a b 0 0 = Some 0"
| "dtw_matrix a b 0 (Suc j) = None"
| "dtw_matrix a b (Suc i) 0 = None"
| "dtw_matrix a b (Suc i) (Suc j) =
     ext_add \<bar>a ! i - b ! j\<bar>
       (ext_min (dtw_matrix a b i (Suc j))
          (ext_min (dtw_matrix a b (Suc i) j) (dtw_matrix a b i j)))"

definition to_float :: "real option \<Rightarrow> pyfloat" where
  "to_float v = (case v of None \<Rightarrow> PosInf | Some r \<Rightarrow> Fin r)"

text \<open>
  The linear \<open>interp1d\<close> of scipy over the normalised index, evaluated at \<open>n\<close> equally
  spaced positions of \<open>[0, 1]\<close>, for a series of at least two samples.
\<close>

definition interp1d_linear :: "real list \<Rightarrow> nat \<Rightarrow> real list" where
  "interp1d_linear ys n =
     map (\<lambda>x. interp_at x (zip (np_linspace01 (length ys)) ys)) (np_linspace01 n)"

text \<open>
  \<open>dtw_distance\<close>. Series of different lengths are first interpolated to the longer
  length. There \<open>interp1d\<close> raises \<open>ValueError\<close> for an empty series, and for a series of
  a single sample its slope is \<open>0/0\<close>: every interpolated value is \<open>nan\<close>, and so are
  the normalised values, every cost and the distance.
\<close>

definition dtw_distance :: "real list \<Rightarrow> real list \<Rightarrow> py_error + pyfloat" where
  "dtw_distance completed_values reference_values =
     (if length completed_values \<noteq> length reference_values
      then (if completed_values = [] \<or> reference_values = [] then Inl ValueError
            else if length completed_values = 1 \<or> length reference_values = 1 then Inr NaN
            else (let n = max (length completed_values) (length reference_values);
                      completed_norm = normalize_signal (interp1d_linear completed_values n);
                      reference_norm = normalize_signal (interp1d_linear reference_values n)
                  in Inr (to_float (dtw_matrix completed_norm reference_norm
                        (length completed_norm) (length reference_norm)))))
      else (let completed_norm = normalize_signal completed_values;
                reference_norm = normalize_signal reference_values
            in Inr (to_float (dtw_matrix completed_norm reference_norm
                  (length completed_norm) (length reference_norm)))))"

text \<open>
  \<open>compute_deviation_metrics\<close> (maximum and mean of the point-wise deviation);
  \<open>np.max\<close> of an empty array raises.
\<close>

definition compute_deviation_metrics :: "real list \<Rightarrow> real list \<Rightarrow> py_error + real \<times> real" where
  "compute_deviation_metrics completed_values reference_values =
     (let min_len = min (length completed_values) (length reference_values);
          deviations = map (\<lambda>(u, v). \<bar>u - v\<bar>)
                         (zip (take min_len completed_values) (take min_len reference_values))
      in if deviations = [] then Inl ValueError
         else Inr (Max (set deviations), np_mean deviations))"

text \<open>
  The combined score of \<open>analyze_sensor\<close>: \<open>min(1.0, 0.6 * (e / 10) + 0.4 * (d / 100))\<close>.
  Python's \<open>min(1.0, x)\<close> keeps 1.0 unless \<open>x < 1.0\<close>, so a \<open>nan\<close> or infinite distance
  gives 1.0.
\<close>

definition combined_score :: "real \<Rightarrow> pyfloat \<Rightarrow> real" where
  "combined_score euclidean_dist dtw_dist =
     (case dtw_dist of
        Fin d \<Rightarrow> min 1 (6 / 10 * (euclidean_dist / 10) + 4 / 10 * (d / 100))
      | other \<Rightarrow> 1)"

definition severity_of :: "real \<Rightarrow> string" where
  "severity_of score =
     (if score > anomaly_threshold then ''critical''
      else if score > warning_threshold then ''warning''
      else ''normal'')"

text \<open>\<open>analyze_sensor\<close>.\<close>

definition analyze_sensor ::
  "(real list \<Rightarrow> real list option) \<Rightarrow> string \<Rightarrow> string \<Rightarrow> real list \<Rightarrow> real list
     \<Rightarrow> py_error + SensorDeviation" where
  "analyze_sensor savgol_filter sid sname completed_values reference_values =
     (let completed_smooth = smooth_signal savgol_filter completed_values;
          reference_smooth = smooth_signal savgol_filter reference_values;
          euclidean_dist = euclidean_distance completed_smooth reference_smooth
      in case dtw_distance completed_smooth reference_smooth of
           Inl e \<Rightarrow> Inl e
         | Inr dtw_dist \<Rightarrow>
             (case compute_deviation_metrics completed_values reference_values of
                Inl e \<Rightarrow> Inl e
              | Inr (max_dev, mean_dev) \<Rightarrow>
                  Inr \<lparr> sd_sensor_id = sid, sd_sensor_name = sname,
                        sd_euclidean_distance = euclidean_dist, sd_dtw_distance = dtw_dist,
                        max_deviation = max_dev, mean_deviation = mean_dev,
                        peak_deviation_time = None, contribution_rank = 0,
                        sd_severity = severity_of (combined_score euclidean_dist dtw_dist) \<rparr>))"

text \<open>
  The health score of \<open>analyze_cycle\<close>, computed from the list of sensor deviations of
  the cycle: the mean of the severity scores times 100, and 100 for an empty list.
  \<open>severity_scores.get(d.severity, 0.5)\<close> is the lookup with its default.
\<close>

definition severity_scores :: "string \<Rightarrow> real" where
  "severity_scores s =
     (if s = ''critical'' then 0 else if s = ''warning'' then 5 / 10
      else if s = ''normal'' then 1 else 5 / 10)"

definition overall_health_score :: "SensorDeviation list \<Rightarrow> real" where
  "overall_health_score sensor_deviations =
     (if sensor_deviations \<noteq> []
      then np_mean (map (\<lambda>d. severity_scores (sd_severity d)) sensor_deviations) * 100
      else 100)"

definition anomaly_flag_of :: "SensorDeviation list \<Rightarrow> bool" where
  "anomaly_flag_of sensor_deviations = (overall_health_score sensor_deviations < 70)"

text \<open>Two sensor deviations for evaluation.\<close>

definition sd_critical :: SensorDeviation where
  "sd_critical = \<lparr> sd_sensor_id = ''s1'', sd_sensor_name = ''motor_speed'',
                   sd_euclidean_distance = 12, sd_dtw_distance = Fin 90,
                   max_deviation = 40, mean_deviation = 20, peak_deviation_time = None,
                   contribution_rank = 1, sd_severity = ''critical'' \<rparr>"

definition sd_normal :: SensorDeviation where
  "sd_normal = \<lparr> sd_sensor_id = ''s2'', sd_sensor_name = ''vibration'',
                 sd_euclidean_distance = 1, sd_dtw_distance = Fin 3,
                 max_deviation = 1, mean_deviation = 1 / 2, peak_deviation_time = None,
                 contribution_rank = 2, sd_severity = ''normal'' \<rparr>"



section \<open>Properties of the cycle state machine\<close>

lemma handle_event_invalid:
  "\<not> table_valid ev (state m) \<Longrightarrow> handle_event E ev md (m, w) = (False, m, w)"
  by (cases ev) auto

text \<open>
  Claim C3. For every state and every event whose pair is not listed as valid in the
  transition table, \<open>transition\<close> returns True and leaves the machine as it was: the
  state, the current cycle and its sample count are unchanged, neither callback is
  called, and the clock is not even read. The same holds for \<open>TIMEOUT\<close> while stopping
  when the grace period has not elapsed, except that the clock has been read once.
\<close>

theorem transition_invalid_pair_noop:
  assumes "\<not> table_valid ev (state m) \<or>
     (ev = TIMEOUT \<and> state m = STOPPING \<and> \<not> fst (grace_period_elapsed E m w))"
  shows "\<exists>w'. transition E ev md (m, w) = (Returned True, m, w') \<and> call_log w' = call_log w \<and>
      (\<not> table_valid ev (state m) \<longrightarrow> w' = w)"
  using assms
proof (elim disjE)
  assume "\<not> table_valid ev (state m)"
  then show ?thesis
    by (simp add: transition_def handle_event_invalid)
next
  assume "ev = TIMEOUT \<and> state m = STOPPING \<and> \<not> fst (grace_period_elapsed E m w)"
  then show ?thesis
    by (auto simp: transition_def grace_period_elapsed_def read_clock_def
             split: option.splits prod.splits)
qed

theorem transition_invalid_pair_noop_witness:
  "\<not> table_valid CYCLE_STOP (state (machine0\<lparr>state := STOPPED\<rparr>)) \<and>
   transition E0 CYCLE_STOP None (machine0\<lparr>state := STOPPED\<rparr>, init_world)
     = (Returned True, machine0\<lparr>state := STOPPED\<rparr>, init_world)"
  using transition_invalid_pair_noop
          [where ev = CYCLE_STOP and m = "machine0\<lparr>state := STOPPED\<rparr>" and E = E0
             and w = init_world and md = None]
  by (auto simp: machine0_def init_machine_def)

lemma completions_snoc:
  "completions n (l @ [c]) =
     completions n l +
       (case c of CycleComplete cm \<Rightarrow> if cycle_number cm = n then 1 else 0 | _ \<Rightarrow> 0)"
  by (simp add: completions_def split: callback_call.splits)

lemma inv_read_clock: "fsm_inv (m, snd (read_clock E w)) = fsm_inv (m, w)"
  by (simp add: read_clock_def fsm_inv_def)

lemma inv_grace: "fsm_inv (m, snd (grace_period_elapsed E m' w)) = fsm_inv (m, w)"
  by (simp add: grace_period_elapsed_def read_clock_def fsm_inv_def split: option.splits)

lemma inv_handle_event: "fsm_inv (m, w) \<Longrightarrow> fsm_inv (snd (handle_event E ev md (m, w)))"
proof (cases ev)
  case REGISTER_STREAM
  assume "fsm_inv (m, w)" then show ?thesis using REGISTER_STREAM by (auto simp: fsm_inv_def)
next
  case CYCLE_START
  assume "fsm_inv (m, w)" then show ?thesis using CYCLE_START
    by (auto simp: fsm_inv_def start_new_cycle_def read_clock_def read_uuid_def Let_def)
next
  case CYCLE_STOP
  assume "fsm_inv (m, w)" then show ?thesis using CYCLE_STOP
    by (auto simp: fsm_inv_def read_clock_def)
next
  case CYCLE_PAUSE
  assume "fsm_inv (m, w)" then show ?thesis using CYCLE_PAUSE
    by (auto simp: fsm_inv_def read_clock_def split: option.splits)
next
  case CYCLE_RESUME
  assume "fsm_inv (m, w)" then show ?thesis using CYCLE_RESUME
    by (auto simp: fsm_inv_def split: option.splits)
next
  case SAMPLE_RECEIVED
  assume "fsm_inv (m, w)" then show ?thesis using SAMPLE_RECEIVED
    by (auto simp: fsm_inv_def read_clock_def count_sample_def grace_period_elapsed_def
          complete_cycle_def invoke_def completions_snoc Let_def split: option.splits)
next
  case CONNECTION_LOST
  assume "fsm_inv (m, w)" then show ?thesis using CONNECTION_LOST
    by (auto simp: fsm_inv_def read_clock_def set_abort_reason_def
          complete_cycle_def invoke_def completions_snoc Let_def split: option.splits)
next
  case TIMEOUT
  assume "fsm_inv (m, w)" then show ?thesis using TIMEOUT
    by (auto simp: fsm_inv_def read_clock_def set_abort_reason_def grace_period_elapsed_def
          complete_cycle_def invoke_def completions_snoc Let_def split: option.splits)
next
  case MANUAL_ABORT
  assume "fsm_inv (m, w)" then show ?thesis using MANUAL_ABORT
    by (auto simp: fsm_inv_def read_clock_def set_abort_reason_def
          complete_cycle_def invoke_def completions_snoc Let_def split: option.splits)
qed

lemma inv_log_snoc:
  "fsm_inv (m, w) \<Longrightarrow> (\<forall>cm. c \<noteq> CycleComplete cm) \<Longrightarrow> fsm_inv (m, w\<lparr>call_log := call_log w @ [c]\<rparr>)"
  by (cases c) (auto simp: fsm_inv_def completions_snoc Let_def)

lemma inv_on_exception: "fsm_inv (m, w) \<Longrightarrow> fsm_inv (snd (on_exception E (m, w)))"
  by (auto simp: on_exception_def invoke_def Let_def inv_log_snoc)

lemma inv_transition:
  assumes "fsm_inv (m, w)"
  shows "fsm_inv (snd (transition E ev md (m, w)))"
proof -
  obtain r m1 w1 where h: "handle_event E ev md (m, w) = (r, m1, w1)"
    by (cases "handle_event E ev md (m, w)") auto
  have i1: "fsm_inv (m1, w1)"
    using inv_handle_event [OF assms, of E ev md] h by simp
  show ?thesis
    using i1 h
    by (auto simp: transition_def invoke_def Let_def inv_on_exception inv_log_snoc)
qed

lemma inv_check_sample_timeout:
  assumes "fsm_inv (m, w)"
  shows "fsm_inv (check_sample_timeout E (m, w))"
proof -
  have a: "fsm_inv (m, snd (read_clock E w))"
    using assms by (simp add: inv_read_clock)
  have b: "fsm_inv (m, snd (grace_period_elapsed E m w))"
    using assms by (simp add: inv_grace)
  show ?thesis
    using a b assms inv_transition [of m "snd (read_clock E w)" E TIMEOUT None]
      inv_transition [of m "snd (grace_period_elapsed E m w)" E TIMEOUT None]
    by (auto simp: check_sample_timeout_def Let_def split: prod.splits)
qed

lemma inv_step: "fsm_inv mw \<Longrightarrow> fsm_inv (step E i mw)"
  by (cases i; cases mw) (auto simp: inv_transition inv_check_sample_timeout)

lemma inv_run: "fsm_inv mw \<Longrightarrow> fsm_inv (run E inps mw)"
  unfolding run_def by (induction inps arbitrary: mw) (auto simp: inv_step)

lemma inv_init:
  "fsm_inv (init_machine sid did\<lparr>on_state_change := a, on_cycle_complete := b, on_error := c\<rparr>,
        init_world)"
  by (simp add: fsm_inv_def init_machine_def init_world_def completions_def)

lemma step_after_end:
  assumes "state m = STOPPED \<or> state m = ABORTED"
    and "\<forall>md. inp \<noteq> Transition CYCLE_START md"
  shows "step E inp (m, w) = (m, w)"
proof (cases inp)
  case (Transition ev md)
  then have "\<not> table_valid ev (state m)"
    using assms by (cases ev) auto
  then have "handle_event E ev md (m, w) = (False, m, w)"
    by (rule handle_event_invalid)
  then show ?thesis using Transition by (simp add: transition_def)
next
  case Tick
  then show ?thesis using assms by (auto simp: check_sample_timeout_def)
qed

text \<open>
  Claim C4. In every run of a freshly constructed machine (whatever callbacks are set)
  over any sequence of \<open>transition\<close> calls and ticks, the completion callback is invoked
  at most once for each cycle number, that is, for each cycle allocated by \<open>CYCLE_START\<close>.
  Moreover, once the machine is stopped or aborted, every input other than a
  \<open>CYCLE_START\<close> leaves machine and world as they are, so no callback is invoked until a
  new cycle is started.
\<close>

theorem finalize_at_most_once:
  "completions n (call_log (snd (run E inps
      (init_machine sid did\<lparr>on_state_change := a, on_cycle_complete := b, on_error := c\<rparr>,
       init_world)))) \<le> 1
   \<and> ((state m = STOPPED \<or> state m = ABORTED) \<longrightarrow>
        (\<forall>md. inp \<noteq> Transition CYCLE_START md) \<longrightarrow> step E inp (m, w) = (m, w))"
proof -
  have "fsm_inv (run E inps
      (init_machine sid did\<lparr>on_state_change := a, on_cycle_complete := b, on_error := c\<rparr>,
       init_world))"
    by (rule inv_run [OF inv_init])
  then show ?thesis
    using step_after_end [of m inp E w] by (auto simp: fsm_inv_def Let_def)
qed

lemma demo_run_completes_once:
  "completions 1 (call_log (snd (run E0 demo_run (machine0, init_world)))) = 1 \<and>
   state (fst (run E0 demo_run (machine0, init_world))) = STOPPED"
  by (simp add: demo_run_def E0_def machine0_def run_def transition_def
      check_sample_timeout_def init_machine_def init_world_def read_clock_def read_uuid_def
      invoke_def start_new_cycle_def grace_period_elapsed_def complete_cycle_def
      count_sample_def GRACE_PERIOD_SEC_def SAMPLE_TIMEOUT_SEC_def completions_def
      on_exception_def Let_def)

theorem finalize_at_most_once_witness:
  "completions 1 (call_log (snd (run E0 demo_run (machine0, init_world)))) = 1 \<and>
   state (machine0\<lparr>state := ABORTED\<rparr>) = ABORTED \<and>
   step E0 (Transition MANUAL_ABORT None) (machine0\<lparr>state := ABORTED\<rparr>, init_world)
     = (machine0\<lparr>state := ABORTED\<rparr>, init_world)"
  using finalize_at_most_once
          [where n = 1 and E = E0 and inps = demo_run and sid = "''s''" and did = "''d''"
             and a = True and b = True and c = True
             and m = "machine0\<lparr>state := ABORTED\<rparr>"
             and inp = "Transition MANUAL_ABORT None" and w = init_world]
        demo_run_completes_once
  by (simp add: machine0_def)


section \<open>Properties of the edge connector\<close>

lemma attempts_fail_Suc:
  "attempts_fail E k (Suc n) =
     ((case post_result E k of Status code \<Rightarrow> False | _ \<Rightarrow> True) \<and> attempts_fail E (Suc k) n)"
  by (simp add: attempts_fail_def upt_conv_Cons del: upt_Suc)

lemma send_loop_all_fail:
  "attempts_fail E (posts w) (nat (max_attempts - retry_count)) \<Longrightarrow>
   send_loop E readings max_attempts retry_count backoff w =
     (None, w\<lparr>posts := posts w + nat (max_attempts - retry_count),
              trace := trace w @ failed_attempts readings backoff (nat (max_attempts - retry_count))\<rparr>)"
proof (induction E readings max_attempts retry_count backoff w rule: send_loop.induct)
  case (1 E readings max_attempts retry_count backoff w)
  show ?case
  proof (cases "retry_count < max_attempts")
    case False
    then show ?thesis by (simp add: send_loop.simps [of E readings max_attempts retry_count])
  next
    case True
    then obtain n where n: "nat (max_attempts - retry_count) = Suc n"
      by (cases "nat (max_attempts - retry_count)") auto
    then have n': "nat (max_attempts - (retry_count + 1)) = n" by linarith
    from "1.prems" n have h: "(case post_result E (posts w) of Status code \<Rightarrow> False | _ \<Rightarrow> True)"
      and t: "attempts_fail E (Suc (posts w)) n"
      by (simp_all add: attempts_fail_Suc)
    show ?thesis
    proof (cases "retry_count + 1 < max_attempts")
      case more: True
      then obtain k where k: "n = Suc k" using n' by (cases n) auto
      show ?thesis
        using True more h t n n' k "1.IH"(1,3) [OF True, of _ "snd (do_post E readings w)"]
        apply (subst send_loop.simps)
        apply (auto simp: do_post_def do_sleep_def split: response.splits)
        done
    next
      case last: False
      then have k: "n = 0" using n' True by linarith
      show ?thesis
        using True last h t n n' k "1.IH"(2,4) [OF True, of _ "snd (do_post E readings w)"]
        apply (subst send_loop.simps)
        apply (auto simp: do_post_def do_sleep_def split: response.splits)
        done
    qed
  qed
qed

lemma new_rows_snoc:
  "new_rows E b w (rs @ [r]) =
     new_rows E b w rs @
       [\<lparr> row_id = next_id b + length rs, row_reading = r, acked = False,
          created_at = current_timestamp E (inserts w + length rs) \<rparr>]"
  by (simp add: new_rows_def nth_append)

lemma add_samples:
  "foldl (\<lambda>bw r. add_sample E r bw) (b, w) readings =
     (b\<lparr>rows := rows b @ new_rows E b w readings, next_id := next_id b + length readings\<rparr>,
      w\<lparr>inserts := inserts w + length readings, trace := trace w @ map Insert readings\<rparr>)"
proof (induction readings rule: rev_induct)
  case Nil
  show ?case by (simp add: new_rows_def)
next
  case (snoc r rs)
  have "foldl (\<lambda>bw r. add_sample E r bw) (b, w) (rs @ [r]) =
          add_sample E r (foldl (\<lambda>bw r. add_sample E r bw) (b, w) rs)"
    by simp
  also have "\<dots> = add_sample E r
      (b\<lparr>rows := rows b @ new_rows E b w rs, next_id := next_id b + length rs\<rparr>,
       w\<lparr>inserts := inserts w + length rs, trace := trace w @ map Insert rs\<rparr>)"
    by (simp only: snoc)
  finally show ?case
    by (simp add: new_rows_snoc add_sample_def)
qed

lemma new_rows_readings: "map row_reading (new_rows E b w readings) = readings"
  by (simp add: new_rows_def o_def map_nth)

lemma new_rows_unacked: "filter (\<lambda>r. \<not> acked r) (new_rows E b w readings) = new_rows E b w readings"
  by (simp add: new_rows_def)



lemma send_batch_fail:
  assumes "\<not> no_stream (c_stream_id c)"
    and "attempts_fail E (posts w) (nat (retry_max_attempts c))"
  shows "send_batch E readings (c, w) =
     (False,
      c\<lparr>buffer := (buffer c)\<lparr>rows := rows (buffer c) @ new_rows E (buffer c) w readings,
                next_id := next_id (buffer c) + length readings\<rparr>\<rparr>,
      w\<lparr>posts := posts w + nat (retry_max_attempts c),
        inserts := inserts w + length readings,
        trace := trace w @ failed_attempts readings (retry_backoff c) (nat (retry_max_attempts c))
                   @ map Insert readings\<rparr>)"
  using assms send_loop_all_fail [of E w "retry_max_attempts c" 0 readings "retry_backoff c"]
  by (simp add: send_batch_def add_samples new_rows_def)








lemma attempts_down: "attempts_fail transport_down 0 3"
  by (simp add: attempts_fail_def transport_down_def upt_conv_Cons del: upt_Suc)


lemma send_loop_success:
  assumes "0 < m" and "post_result E (posts w) = Status 200"
  shows "send_loop E rs m 0 b w =
           (Some True, w\<lparr>posts := Suc (posts w), trace := trace w @ [Post rs]\<rparr>)"
  using assms by (subst send_loop.simps) (simp add: do_post_def)

text \<open>
  Claim C1, as amended. A sample produced by the read loop is appended to the in-memory
  batch on arrival, not to the durable table. When no flush is due, the iteration only
  extends the batch. When a flush is due and the first POST is answered with status 200,
  the batch is sent and nothing is ever written to the durable table. When a flush is due
  and every attempt raises, the readings of the batch are inserted into the durable
  table, after all the POSTs.
\<close>

theorem read_iteration_store_use:
  "(\<not> flush_due (c\<lparr>batch := batch c @ readings\<rparr>) now \<longrightarrow>
       read_iteration E readings now (c, w) =
         (c\<lparr>batch := batch c @ readings\<rparr>, do_sleep (simulator_interval c) w))
   \<and> (flush_due (c\<lparr>batch := batch c @ readings\<rparr>) now \<and> readings \<noteq> [] \<and>
        \<not> no_stream (c_stream_id c) \<and> 0 < retry_max_attempts c \<and>
        post_result E (posts w) = Status 200 \<longrightarrow>
       read_iteration E readings now (c, w) =
         (c\<lparr>batch := [], last_flush := now\<rparr>,
          w\<lparr>posts := Suc (posts w),
            trace := trace w @ [Post (batch c @ readings), Sleep (simulator_interval c)]\<rparr>))
   \<and> (flush_due (c\<lparr>batch := batch c @ readings\<rparr>) now \<and> readings \<noteq> [] \<and>
        \<not> no_stream (c_stream_id c) \<and>
        attempts_fail E (posts w) (nat (retry_max_attempts c)) \<longrightarrow>
       (\<exists>c' w'. read_iteration E readings now (c, w) = (c', w') \<and> batch c' = [] \<and>
          rows (buffer c') = rows (buffer c) @ new_rows E (buffer c) w (batch c @ readings) \<and>
          trace w' = trace w
             @ failed_attempts (batch c @ readings) (retry_backoff c) (nat (retry_max_attempts c))
             @ map Insert (batch c @ readings) @ [Sleep (simulator_interval c)]))"
proof (intro conjI impI)
  assume "\<not> flush_due (c\<lparr>batch := batch c @ readings\<rparr>) now"
  then show "read_iteration E readings now (c, w) =
         (c\<lparr>batch := batch c @ readings\<rparr>, do_sleep (simulator_interval c) w)"
    by (simp add: read_iteration_def)
next
  assume h: "flush_due (c\<lparr>batch := batch c @ readings\<rparr>) now \<and> readings \<noteq> [] \<and>
        \<not> no_stream (c_stream_id c) \<and> 0 < retry_max_attempts c \<and>
        post_result E (posts w) = Status 200"
  then have "send_loop E (batch c @ readings) (retry_max_attempts c) 0 (retry_backoff c) w =
           (Some True, w\<lparr>posts := Suc (posts w), trace := trace w @ [Post (batch c @ readings)]\<rparr>)"
    using send_loop_success by blast
  then show "read_iteration E readings now (c, w) =
         (c\<lparr>batch := [], last_flush := now\<rparr>,
          w\<lparr>posts := Suc (posts w),
            trace := trace w @ [Post (batch c @ readings), Sleep (simulator_interval c)]\<rparr>)"
    using h by (simp add: read_iteration_def flush_batch_def send_batch_def do_sleep_def)
next
  assume h: "flush_due (c\<lparr>batch := batch c @ readings\<rparr>) now \<and> readings \<noteq> [] \<and>
        \<not> no_stream (c_stream_id c) \<and>
        attempts_fail E (posts w) (nat (retry_max_attempts c))"
  have "send_batch E (batch c @ readings) (c\<lparr>batch := []\<rparr>, w) =
     (False,
      c\<lparr>batch := [], buffer := (buffer c)\<lparr>rows := rows (buffer c) @ new_rows E (buffer c) w (batch c @ readings),
                next_id := next_id (buffer c) + length (batch c @ readings)\<rparr>\<rparr>,
      w\<lparr>posts := posts w + nat (retry_max_attempts c),
        inserts := inserts w + length (batch c @ readings),
        trace := trace w @ failed_attempts (batch c @ readings) (retry_backoff c) (nat (retry_max_attempts c))
                   @ map Insert (batch c @ readings)\<rparr>)"
    using h send_batch_fail [of "c\<lparr>batch := []\<rparr>" E w "batch c @ readings"] by simp
  then show "\<exists>c' w'. read_iteration E readings now (c, w) = (c', w') \<and> batch c' = [] \<and>
          rows (buffer c') = rows (buffer c) @ new_rows E (buffer c) w (batch c @ readings) \<and>
          trace w' = trace w
             @ failed_attempts (batch c @ readings) (retry_backoff c) (nat (retry_max_attempts c))
             @ map Insert (batch c @ readings) @ [Sleep (simulator_interval c)]"
    using h by (simp add: read_iteration_def flush_batch_def do_sleep_def)
qed

theorem read_iteration_store_use_witness:
  "\<not> flush_due (connector0\<lparr>batch := batch connector0 @ [reading0]\<rparr>) 0 \<and>
   batch (fst (read_iteration transport_down [reading0] 0 (connector0, cworld0))) = [reading0] \<and>
   flush_due (connector0\<lparr>batch := batch connector0 @ [reading0, reading1]\<rparr>) 0 \<and>
   \<not> no_stream (c_stream_id connector0) \<and> 0 < retry_max_attempts connector0 \<and>
   post_result transport_ok (posts cworld0) = Status 200 \<and>
   trace (snd (read_iteration transport_ok [reading0, reading1] 0 (connector0, cworld0))) =
     [Post [reading0, reading1], Sleep (1 / 10)] \<and>
   attempts_fail transport_down (posts cworld0) (nat (retry_max_attempts connector0)) \<and>
   map row_reading (rows (buffer (fst
     (read_iteration transport_down [reading0, reading1] 0 (connector0, cworld0))))) =
     [reading0, reading1]"
proof -
  have h0: "\<not> flush_due (connector0\<lparr>batch := batch connector0 @ [reading0]\<rparr>) 0"
    by (simp add: flush_due_def connector0_def)
  have h1: "flush_due (connector0\<lparr>batch := batch connector0 @ [reading0, reading1]\<rparr>) 0"
    by (simp add: flush_due_def connector0_def)
  have h2: "\<not> no_stream (c_stream_id connector0)" "0 < retry_max_attempts connector0"
    by (simp_all add: connector0_def no_stream_def)
  have h3: "post_result transport_ok (posts cworld0) = Status 200"
    by (simp add: transport_ok_def)
  have h4: "attempts_fail transport_down (posts cworld0) (nat (retry_max_attempts connector0))"
    using attempts_down by (simp add: connector0_def cworld0_def)
  have b: "batch connector0 = []" "rows (buffer connector0) = []" "trace cworld0 = []"
     "simulator_interval connector0 = 1 / 10"
    by (simp_all add: connector0_def cworld0_def)
  note a = read_iteration_store_use
             [where c = connector0 and w = cworld0 and now = 0 and readings = "[reading0]"
                and E = transport_down]
  note s = read_iteration_store_use
             [where c = connector0 and w = cworld0 and now = 0
                and readings = "[reading0, reading1]" and E = transport_ok]
  note f = read_iteration_store_use
             [where c = connector0 and w = cworld0 and now = 0
                and readings = "[reading0, reading1]" and E = transport_down]
  have r0: "batch (fst (read_iteration transport_down [reading0] 0 (connector0, cworld0)))
              = [reading0]"
    using a h0 by (simp add: b)
  have r1: "trace (snd (read_iteration transport_ok [reading0, reading1] 0 (connector0, cworld0)))
              = [Post [reading0, reading1], Sleep (1 / 10)]"
    using s h1 h2 h3 by (simp add: b)
  have r2: "map row_reading (rows (buffer (fst
     (read_iteration transport_down [reading0, reading1] 0 (connector0, cworld0))))) =
     [reading0, reading1]"
    using f h1 h2 h4 new_rows_readings [of transport_down "buffer connector0" cworld0
                                          "[reading0, reading1]"]
    by (auto simp: b)
  show ?thesis
    using h0 h1 h2 h3 h4 r0 r1 r2 by blast
qed

text \<open>
  Claim C1 as stated fails. With batch size 2 and a transport that answers 200: after one
  reading has arrived, it is in the in-memory batch only and the durable table is empty;
  after two readings have arrived, they have been posted and the durable table is still
  empty, so the POST was not preceded by any insert.
\<close>

theorem sample_sent_without_durable_copy:
  "batch (fst (read_iteration transport_ok [reading0] 0 (connector0, cworld0))) = [reading0] \<and>
   rows (buffer (fst (read_iteration transport_ok [reading0] 0 (connector0, cworld0)))) = [] \<and>
   trace (snd (read_iteration transport_ok [reading0] 0 (connector0, cworld0))) = [Sleep (1 / 10)] \<and>
   rows (buffer (fst (read_iteration transport_ok [reading0, reading1] 0 (connector0, cworld0)))) = [] \<and>
   trace (snd (read_iteration transport_ok [reading0, reading1] 0 (connector0, cworld0))) =
     [Post [reading0, reading1], Sleep (1 / 10)]"
proof -
  have s: "send_loop transport_ok [reading0, reading1] 3 0 2 cworld0 =
             (Some True, cworld0\<lparr>posts := Suc (posts cworld0),
                trace := trace cworld0 @ [Post [reading0, reading1]]\<rparr>)"
    by (rule send_loop_success) (simp_all add: transport_ok_def)
  have one: "read_iteration transport_ok [reading0] 0 (connector0, cworld0) =
               (connector0\<lparr>batch := [reading0]\<rparr>, cworld0\<lparr>trace := [Sleep (1 / 10)]\<rparr>)"
    by (simp add: read_iteration_def flush_due_def do_sleep_def connector0_def cworld0_def)
  have two: "read_iteration transport_ok [reading0, reading1] 0 (connector0, cworld0) =
               (connector0,
                cworld0\<lparr>posts := 1, trace := [Post [reading0, reading1], Sleep (1 / 10)]\<rparr>)"
    using s
    by (simp add: read_iteration_def flush_due_def flush_batch_def send_batch_def do_sleep_def
          connector0_def cworld0_def no_stream_def)
  show ?thesis
    unfolding one two by (simp add: connector0_def cworld0_def)
qed


section \<open>Properties of the analysis service\<close>

lemma length_linspace: "length (np_linspace01 n) = n"
  by (simp add: np_linspace01_def)

lemma interp_at_first: "x \<le> x0 \<Longrightarrow> interp_at x ((x0, y0) # ps) = y0"
  by (cases ps) auto

lemma interp_at_last:
  "ps \<noteq> [] \<Longrightarrow> \<forall>p \<in> set (butlast ps). fst p < x \<Longrightarrow> fst (last ps) \<le> x \<Longrightarrow>
     interp_at x ps = snd (last ps)"
  by (induction x ps rule: interp_at.induct) (auto split: if_splits)

lemma linspace_hd: "0 < n \<Longrightarrow> np_linspace01 n ! 0 = 0"
  by (cases n) (auto simp: np_linspace01_def nth_append upt_conv_Cons simp del: upt_Suc)

lemma linspace_nth: "i < n \<Longrightarrow> np_linspace01 n ! i = (if n = 1 then 0 else real i / real (n - 1))"
  by (auto simp: np_linspace01_def)

lemma linspace_last: "2 \<le> n \<Longrightarrow> last (np_linspace01 n) = 1"
proof -
  assume h: "2 \<le> n"
  then have "last (np_linspace01 n) = np_linspace01 n ! (n - 1)"
    by (subst last_conv_nth) (auto simp: length_linspace np_linspace01_def)
  also have "\<dots> = 1" using h by (simp add: linspace_nth)
  finally show ?thesis .
qed

lemma resample_first:
  assumes "series \<noteq> []"
  shows "interp_at 0 (zip (np_linspace01 (length series)) series) = hd series"
proof -
  obtain y ys where s: "series = y # ys" using assms by (cases series) auto
  have "np_linspace01 (length series) = 0 # tl (np_linspace01 (length series))"
    using linspace_hd [of "length series"] length_linspace [of "length series"] s
    by (cases "np_linspace01 (length series)") auto
  then have "zip (np_linspace01 (length series)) series
               = (0, y) # zip (tl (np_linspace01 (length series))) ys"
    using s by (metis zip_Cons_Cons)
  then show ?thesis using s by (simp add: interp_at_first)
qed

lemma resample_last:
  assumes "series \<noteq> []"
  shows "interp_at 1 (zip (np_linspace01 (length series)) series) = last series"
proof -
  let ?ps = "zip (np_linspace01 (length series)) series"
  have len: "length ?ps = length series" by (simp add: length_linspace)
  then have ne: "?ps \<noteq> []" using assms by auto
  have "\<forall>p \<in> set (butlast ?ps). fst p < 1"
  proof
    fix p assume "p \<in> set (butlast ?ps)"
    then obtain i where i: "i < length (butlast ?ps)" "p = butlast ?ps ! i"
      by (auto simp: in_set_conv_nth)
    then have il: "i < length series - 1" using len by simp
    then have "p = ?ps ! i" using i by (simp add: nth_butlast)
    then have "fst p = np_linspace01 (length series) ! i"
      using il by (simp add: length_linspace)
    also have "\<dots> = real i / real (length series - 1)"
      using il by (simp add: linspace_nth)
    also have "\<dots> < 1" using il by simp
    finally show "fst p < 1" .
  qed
  moreover have "fst (last ?ps) \<le> 1"
  proof -
    have "fst (last ?ps) = np_linspace01 (length series) ! (length series - 1)"
      using ne len assms by (simp add: last_conv_nth length_linspace)
    also have "\<dots> \<le> 1" using assms by (simp add: linspace_nth)
    finally show ?thesis .
  qed
  ultimately have "interp_at 1 ?ps = snd (last ?ps)"
    using interp_at_last [OF ne] by blast
  also have "\<dots> = last series"
    using ne len assms by (simp add: last_conv_nth length_linspace)
  finally show ?thesis .
qed

text \<open>
  Claim C5, as amended. In \<open>_compare_sensor_data\<close>, series of equal length go to the
  detectors as they are. When the lengths differ, the cycle's series (if not empty) is
  resampled to the length of the reference series, whichever of the two is longer, by
  linear interpolation over the normalised index \<open>[0, 1]\<close> (keeping its first and its
  last value), and the reference series is taken as it is: both detectors receive arrays
  of the length of the reference.
\<close>

theorem detector_inputs_reference_length:
  "(length sensor_data = length ref_data \<longrightarrow>
      detector_inputs sensor_data ref_data = Inr (sensor_data, ref_data)) \<and>
   (length sensor_data \<noteq> length ref_data \<and> sensor_data \<noteq> [] \<longrightarrow>
      (\<exists>sv. detector_inputs sensor_data ref_data = Inr (sv, ref_data) \<and>
         length sv = length ref_data \<and>
         sv = map (\<lambda>x. interp_at x (zip (np_linspace01 (length sensor_data)) sensor_data))
                (np_linspace01 (length ref_data)) \<and>
         (ref_data \<noteq> [] \<longrightarrow> hd sv = hd sensor_data) \<and>
         (2 \<le> length ref_data \<longrightarrow> last sv = last sensor_data)))"
proof (intro conjI impI)
  assume "length sensor_data = length ref_data"
  then show "detector_inputs sensor_data ref_data = Inr (sensor_data, ref_data)"
    by (simp add: detector_inputs_def)
next
  assume h: "length sensor_data \<noteq> length ref_data \<and> sensor_data \<noteq> []"
  let ?f = "\<lambda>x. interp_at x (zip (np_linspace01 (length sensor_data)) sensor_data)"
  let ?sv = "map ?f (np_linspace01 (length ref_data))"
  have ne: "np_linspace01 (length sensor_data) \<noteq> []"
    using h length_linspace [of "length sensor_data"] by (metis length_0_conv)
  have d: "detector_inputs sensor_data ref_data = Inr (?sv, ref_data)"
    using h ne by (simp add: detector_inputs_def resample_series_def np_interp_def)
  have l: "length ?sv = length ref_data" by (simp add: length_linspace)
  have f: "hd ?sv = hd sensor_data" if "ref_data \<noteq> []"
  proof -
    have "hd ?sv = ?f (np_linspace01 (length ref_data) ! 0)"
      using that length_linspace [of "length ref_data"]
      by (metis hd_conv_nth hd_map length_0_conv)
    then show ?thesis
      using that h by (simp add: linspace_hd resample_first)
  qed
  have e: "last ?sv = last sensor_data" if "2 \<le> length ref_data"
  proof -
    have "np_linspace01 (length ref_data) \<noteq> []"
      using that length_linspace [of "length ref_data"] by (metis length_0_conv not_numeral_le_zero)
    then have "last ?sv = ?f (last (np_linspace01 (length ref_data)))"
      by (simp add: last_map)
    then show ?thesis
      using that h by (simp add: linspace_last resample_last)
  qed
  show "\<exists>sv. detector_inputs sensor_data ref_data = Inr (sv, ref_data) \<and>
         length sv = length ref_data \<and>
         sv = map (\<lambda>x. interp_at x (zip (np_linspace01 (length sensor_data)) sensor_data))
                (np_linspace01 (length ref_data)) \<and>
         (ref_data \<noteq> [] \<longrightarrow> hd sv = hd sensor_data) \<and>
         (2 \<le> length ref_data \<longrightarrow> last sv = last sensor_data)"
    using d l f e by blast
qed

theorem detector_inputs_reference_length_witness:
  "length [1, 2 :: real] \<noteq> length [10, 20, 30 :: real] \<and> [1, 2 :: real] \<noteq> [] \<and>
   [10, 20, 30 :: real] \<noteq> [] \<and> 2 \<le> length [10, 20, 30 :: real] \<and>
   detector_inputs [1, 2] [10, 20, 30] = Inr ([1, 3 / 2, 2], [10, 20, 30]) \<and>
   length [5, 6 :: real] = length [7, 8 :: real] \<and>
   detector_inputs [5, 6] [7, 8] = Inr ([5, 6], [7, 8])"
  using detector_inputs_reference_length [of "[1, 2]" "[10, 20, 30]"]
        detector_inputs_reference_length [of "[5, 6]" "[7, 8]"]
  by (simp add: np_linspace01_def upt_conv_Cons del: upt_Suc)

text \<open>
  Claim C5 as stated fails. A cycle series of three samples compared with a reference of
  two samples is not the shorter series, yet it is the one resampled: the detectors
  receive arrays of length two, the shorter length.
\<close>

theorem longer_series_resampled_to_shorter:
  "detector_inputs [1, 2, 3] [10, 20] = Inr ([1, 3], [10, 20])"
  by (simp add: detector_inputs_def resample_series_def np_interp_def np_linspace01_def
        upt_conv_Cons del: upt_Suc)

lemma similarity_range:
  "calculate_similarity a b = NaN \<or> in_unit_interval (calculate_similarity a b)"
  by (auto simp: calculate_similarity_def np_clip_def Let_def split: pyfloat.splits)

lemma eps_pos: "0 < eps"
  by (simp add: eps_def)

lemma amplitude_range:
  assumes "a \<noteq> []" and "b \<noteq> []"
  shows "in_unit_interval (detect_amplitude_deviation a b)"
proof -
  have "0 \<le> \<bar>np_mean a - np_mean b\<bar> / (\<bar>np_mean b\<bar> + eps)"
    using eps_pos by (intro divide_nonneg_nonneg) auto
  moreover have "0 \<le> \<bar>np_std a - np_std b\<bar> / (\<bar>np_std b\<bar> + eps)"
    using eps_pos by (intro divide_nonneg_nonneg) auto
  ultimately show ?thesis
    using assms by (simp add: detect_amplitude_deviation_def Let_def)
qed

lemma shape_range: "in_unit_interval (detect_shape_deviation a b)"
  by (auto simp: detect_shape_deviation_def split: pyfloat.splits)

lemma timing_range:
  assumes "a \<noteq> []"
  shows "\<exists>t. detect_timing_deviation a b = Inr t \<and> in_unit_interval t"
  using assms by (simp add: detect_timing_deviation_def Let_def)

text \<open>
  Claim C6. The severities of amplitude, shape and timing lie in \<open>[0, 1]\<close> for non-empty
  series of equal length (lemmas above), and so does the similarity whenever it is a
  number. But for a series without variance the similarity is \<open>nan\<close>: the epsilon keeps
  the z-normalisation from dividing by zero, the normalised series is all zeros, its
  correlation with anything is \<open>0/0\<close>, and \<open>np.clip\<close> passes \<open>nan\<close> through.
\<close>

theorem similarity_of_constant_series_is_nan:
  "calculate_similarity [1, 1] [1, 2] = NaN \<and>
   \<not> in_unit_interval (calculate_similarity [1, 1] [1, 2])"
  by (simp add: calculate_similarity_def np_corrcoef_def np_cov_def np_mean_def np_std_def)

lemma similarity_constant_nan: "calculate_similarity (replicate n c) ys = NaN"
proof (cases n)
  case 0
  then show ?thesis by (simp add: calculate_similarity_def np_corrcoef_def)
next
  case (Suc k)
  have m: "np_mean (replicate n c) = c"
    using Suc by (simp add: np_mean_def sum_list_replicate del: replicate_Suc)
  have z: "map (\<lambda>x. (x - np_mean (replicate n c)) / (np_std (replicate n c) + eps)) (replicate n c)
             = replicate n 0"
    by (simp add: m map_replicate_const)
  have "np_cov (replicate n 0) (replicate n 0) = 0"
    by (simp add: np_cov_def np_mean_def zip_replicate sum_list_replicate)
  then have "np_corrcoef (replicate n 0) zs = NaN" for zs
    by (simp add: np_corrcoef_def)
  then show ?thesis
    by (simp only: calculate_similarity_def Let_def z) simp
qed

lemma mean_const:
  assumes "xs \<noteq> []" and "\<forall>x \<in> set xs. x = c"
  shows "np_mean xs = c"
proof -
  have "xs = replicate (length xs) c"
    using assms(2) by (simp add: replicate_length_same)
  then have "sum_list xs = real (length xs) * c"
    by (metis sum_list_replicate)
  then show ?thesis using assms(1) by (simp add: np_mean_def)
qed

text \<open>
  Claim C7. Without deviations the batch health score is 1 and the streaming health
  score is 100. The streaming health score of a non-empty list of sensor deviations is
  100 times the mean of the severity scores (critical 0, warning 0.5, normal 1); it is 0
  when every analysed sensor is critical (and there is one), and 100 when every sensor
  is normal.
\<close>

theorem health_score_extremes:
  "calculate_health_score [] = 1 \<and>
   overall_health_score [] = 100 \<and>
   severity_scores ''critical'' = 0 \<and> severity_scores ''warning'' = 1 / 2 \<and>
   severity_scores ''normal'' = 1 \<and>
   (sds \<noteq> [] \<longrightarrow>
      overall_health_score sds
        = 100 * (sum_list (map (\<lambda>d. severity_scores (sd_severity d)) sds) / real (length sds))) \<and>
   (sds \<noteq> [] \<and> (\<forall>d \<in> set sds. sd_severity d = ''critical'') \<longrightarrow> overall_health_score sds = 0) \<and>
   ((\<forall>d \<in> set sds. sd_severity d = ''normal'') \<longrightarrow> overall_health_score sds = 100)"
proof (intro conjI impI)
  show "calculate_health_score [] = 1" by (simp add: calculate_health_score_def)
  show "overall_health_score [] = 100" by (simp add: overall_health_score_def)
  show "severity_scores ''critical'' = 0" by (simp add: severity_scores_def)
  show "severity_scores ''warning'' = 1 / 2" by (simp add: severity_scores_def)
  show "severity_scores ''normal'' = 1" by (simp add: severity_scores_def)
next
  assume "sds \<noteq> []"
  then show "overall_health_score sds
        = 100 * (sum_list (map (\<lambda>d. severity_scores (sd_severity d)) sds) / real (length sds))"
    by (simp add: overall_health_score_def np_mean_def)
next
  assume h: "sds \<noteq> [] \<and> (\<forall>d \<in> set sds. sd_severity d = ''critical'')"
  then have "np_mean (map (\<lambda>d. severity_scores (sd_severity d)) sds) = 0"
    by (intro mean_const) (auto simp: severity_scores_def)
  then show "overall_health_score sds = 0"
    using h by (simp add: overall_health_score_def)
next
  assume h: "\<forall>d \<in> set sds. sd_severity d = ''normal''"
  show "overall_health_score sds = 100"
  proof (cases "sds = []")
    case True
    then show ?thesis by (simp add: overall_health_score_def)
  next
    case False
    then have "np_mean (map (\<lambda>d. severity_scores (sd_severity d)) sds) = 1"
      using h by (intro mean_const) (auto simp: severity_scores_def)
    then show ?thesis using False by (simp add: overall_health_score_def)
  qed
qed

theorem health_score_extremes_witness:
  "[sd_critical, sd_critical] \<noteq> [] \<and> sd_severity sd_critical = ''critical'' \<and>
   overall_health_score [sd_critical, sd_critical] = 0 \<and>
   sd_severity sd_normal = ''normal'' \<and>
   overall_health_score [sd_normal, sd_normal, sd_normal] = 100 \<and>
   overall_health_score [sd_critical, sd_normal] = 50"
  using health_score_extremes [of "[sd_critical, sd_critical]"]
        health_score_extremes [of "[sd_normal, sd_normal, sd_normal]"]
        health_score_extremes [of "[sd_critical, sd_normal]"]
  by (simp add: sd_critical_def sd_normal_def severity_scores_def)

lemma window_start_ge:
  assumes "cy_start_time c \<le> cy_end_time c"
    and "cy_duration c = cy_end_time c - cy_start_time c"
  shows "cy_start_time c \<le> window_start_of c tws"
proof (cases "truthy tws")
  case True
  then show ?thesis by (simp add: window_start_of_def)
next
  case False
  have "cy_start_time c \<le> cy_end_time c - (cy_end_time c - cy_start_time c) * (1 / 10)"
    using assms(1) by (simp add: field_simps)
  then show ?thesis
    using False assms(2) by (simp add: window_start_of_def)
qed

text \<open>
  Claim C9. For an abnormally terminated cycle (not complete) with
  \<open>end_time \<ge> start_time\<close> and \<open>duration = end_time - start_time\<close>, and with a reference
  cycle to compare with, \<open>analyze_root_cause\<close> returns a response whose window start is
  not earlier than the start of the cycle, whether the caller gives a window length or
  the default of a tenth of the duration is used.
\<close>

theorem root_cause_window_after_start:
  assumes "cycle = Some c" and "\<not> cy_is_complete c" and "cy_start_time c \<le> cy_end_time c"
    and "cy_duration c = cy_end_time c - cy_start_time c" and "ref_cycle = Some r"
  shows "\<exists>resp. analyze_root_cause cycle time_window_seconds ref_cycle = Some resp \<and>
           cy_start_time c \<le> analysis_window_start resp \<and>
           analysis_window_start resp = window_start_of c time_window_seconds"
  using assms window_start_ge [of c time_window_seconds]
  by (simp add: analyze_root_cause_def Let_def)

theorem root_cause_window_after_start_witness:
  "\<not> cy_is_complete cycle0 \<and> cy_start_time cycle0 \<le> cy_end_time cycle0 \<and>
   cy_duration cycle0 = cy_end_time cycle0 - cy_start_time cycle0 \<and>
   map_option analysis_window_start (analyze_root_cause (Some cycle0) None (Some ref_cycle0))
     = Some 154 \<and>
   map_option analysis_window_start (analyze_root_cause (Some cycle0) (Some 1000) (Some ref_cycle0))
     = Some 100 \<and>
   map_option analysis_window_start (analyze_root_cause (Some cycle0) (Some 20) (Some ref_cycle0))
     = Some 140"
proof -
  have h: "\<not> cy_is_complete cycle0" "cy_start_time cycle0 \<le> cy_end_time cycle0"
    "cy_duration cycle0 = cy_end_time cycle0 - cy_start_time cycle0"
    by (simp_all add: cycle0_def)
  have w: "window_start_of cycle0 None = 154" "window_start_of cycle0 (Some 1000) = 100"
    "window_start_of cycle0 (Some 20) = 140"
    by (simp_all add: window_start_of_def truthy_def cycle0_def)
  note t = root_cause_window_after_start [OF refl h refl, where r = ref_cycle0]
  show ?thesis
    using h t [of None] t [of "Some 1000"] t [of "Some 20"] w by auto
qed


section \<open>Properties of the deviation analyzer\<close>

lemma euclidean_self: "euclidean_distance xs xs = 0"
proof -
  have "sum_list (map (\<lambda>(u, v). (u - v)\<^sup>2) (zip ys ys)) = (0::real)" for ys :: "real list"
    by (induction ys) auto
  then show ?thesis by (simp add: euclidean_distance_def Let_def)
qed

lemma euclidean_nonneg: "0 \<le> euclidean_distance xs ys"
proof -
  have "0 \<le> sum_list (map (\<lambda>(u, v). (u - v)\<^sup>2) ps)" for ps :: "(real \<times> real) list"
    by (induction ps) auto
  then show ?thesis by (simp add: euclidean_distance_def Let_def)
qed

lemma dtw_matrix_nonneg: "dtw_matrix a b i j = Some d \<Longrightarrow> 0 \<le> d"
proof (induction a b i j arbitrary: d rule: dtw_matrix.induct)
  case (4 a b i j)
  then show ?case
    by (cases "dtw_matrix a b i (Suc j)"; cases "dtw_matrix a b (Suc i) j";
        cases "dtw_matrix a b i j") (auto simp: min_def split: if_splits)
qed auto

lemma dtw_matrix_self: "dtw_matrix a a i i = Some 0"
proof (induction i)
  case 0
  show ?case by simp
next
  case (Suc i)
  show ?case
    using Suc dtw_matrix_nonneg [of a a i "Suc i"] dtw_matrix_nonneg [of a a "Suc i" i]
    by (cases "dtw_matrix a a i (Suc i)"; cases "dtw_matrix a a (Suc i) i") auto
qed

lemma dtw_self: "dtw_distance xs xs = Inr (Fin 0)"
  by (simp add: dtw_distance_def dtw_matrix_self to_float_def)


lemma dtw_single_sample: "dtw_distance [5] [1, 2] = Inr NaN"
  by (simp add: dtw_distance_def)

lemma dtw_empty_raises:
  "xs \<noteq> [] \<Longrightarrow> dtw_distance [] xs = Inl ValueError \<and> dtw_distance xs [] = Inl ValueError"
  by (simp add: dtw_distance_def)

text \<open>
  Claim C8. Both distances of a series to itself are 0, the Euclidean distance is never
  negative, and neither is the DTW distance when it is a number (lemmas above). But
  \<open>dtw_distance\<close> gives no distance for an empty series against a non-empty one: the
  interpolation that equalises the lengths raises.
\<close>

theorem dtw_distance_raises_on_empty_series:
  "dtw_distance [] [1] = Inl ValueError"
  by (simp add: dtw_distance_def)

lemma normalize_constant: "normalize_signal (replicate n c) = replicate n 0"
proof (cases n)
  case 0
  then show ?thesis by (simp add: normalize_signal_def)
next
  case (Suc k)
  then have "set (replicate n c) = {c}" by auto
  then show ?thesis
    by (simp add: normalize_signal_def Let_def map_replicate_const del: replicate_Suc)
qed

lemma euclidean_constant: "euclidean_distance (replicate n c1) (replicate n c2) = 0"
proof -
  have "sum_list (map (\<lambda>(u, v). (u - v)\<^sup>2) (zip ys ys)) = (0::real)" for ys :: "real list"
    by (induction ys) auto
  then show ?thesis by (simp add: euclidean_distance_def normalize_constant sum_list_replicate)
qed

lemma dtw_constant: "dtw_distance (replicate n c1) (replicate n c2) = Inr (Fin 0)"
  by (simp add: dtw_distance_def normalize_constant dtw_matrix_self to_float_def)

lemma smooth_constant:
  assumes "n < 11 \<or> savgol (replicate n c) = None \<or> savgol (replicate n c) = Some (replicate n c)"
  shows "smooth_signal savgol (replicate n c) = replicate n c"
  using assms by (auto simp: smooth_signal_def)

text \<open>
  What holds for constant series in exact arithmetic. Min-max normalisation maps a
  constant series to zeros, so for two constant series of equal length both distances
  are 0. \<open>analyze_sensor\<close> puts the sensor in the bucket normal when the series reach
  the distances unsmoothed (fewer than 11 samples) or when the smoothing filter returns
  a constant series exactly as it is.
\<close>

lemma constant_series_normal_without_noise:
  assumes "0 < n"
    and "n < 11 \<or> (\<forall>c. savgol (replicate n c) = None \<or> savgol (replicate n c) = Some (replicate n c))"
  shows "normalize_signal (replicate n c1) = replicate n 0 \<and>
         euclidean_distance (replicate n c1) (replicate n c2) = 0 \<and>
         dtw_distance (replicate n c1) (replicate n c2) = Inr (Fin 0) \<and>
         (\<exists>d. analyze_sensor savgol sid sname (replicate n c1) (replicate n c2) = Inr d \<and>
              sd_euclidean_distance d = 0 \<and> sd_dtw_distance d = Fin 0 \<and>
              sd_severity d = ''normal'')"
proof -
  have s1: "smooth_signal savgol (replicate n c1) = replicate n c1"
    and s2: "smooth_signal savgol (replicate n c2) = replicate n c2"
    using assms(2) by (auto intro: smooth_constant)
  obtain k where k: "n = Suc k" using assms(1) by (cases n) auto
  have m: "compute_deviation_metrics (replicate n c1) (replicate n c2) \<noteq> Inl ValueError"
    by (simp add: compute_deviation_metrics_def k)
  then obtain mx mn where mm: "compute_deviation_metrics (replicate n c1) (replicate n c2) = Inr (mx, mn)"
    by (cases "compute_deviation_metrics (replicate n c1) (replicate n c2)") (auto, metis py_error.exhaust)
  have sev: "severity_of (combined_score 0 (Fin 0)) = ''normal''"
    by (simp add: severity_of_def combined_score_def anomaly_threshold_def warning_threshold_def)
  show ?thesis
    using sev
    by (simp add: normalize_constant euclidean_constant dtw_constant analyze_sensor_def s1 s2 mm)
qed











end
